theory Spec2Isabelle
  imports Complex_Main
begin

section \<open>The simulation engine of \<open>first_gut.py\<close> and \<open>simple_game_gut.py\<close>\<close>

text \<open>
  Both source files contain the same \<open>simulate_decision\<close> and the same caller-level
  decision rule. Energies are Python floats; the model reads them as real numbers, so
  every statement below is about exact arithmetic. \<open>horizon\<close> and \<open>scenarios\<close>
  are Python integers.
\<close>

subsection \<open>The libraries the engine calls\<close>

text \<open>
  \<open>hashlib\<close> and \<open>numpy.random\<close> are not part of the repository. They are taken as
  a parameter: \<open>sha256_int\<close> stands for
  \<open>int(hashlib.sha256(seed_key.encode()).hexdigest(), 16)\<close> as a function of the five
  values formatted into the key, \<open>random_seed\<close> for the generator state that
  \<open>np.random.seed\<close> installs, and \<open>normal_draw\<close> for the array that
  \<open>np.random.normal\<close> fills from a generator state, with the state it leaves behind.
  The array has shape \<open>(scenarios, horizon)\<close> and is only ever read inside that shape,
  so it is a function of a row and a column index.
\<close>

datatype error = ValueError | NanResult

type_synonym seed_key = "real \<times> real \<times> real \<times> real \<times> int"

type_synonym matrix = "nat \<Rightarrow> nat \<Rightarrow> real"

record 'g library =
  sha256_int :: "seed_key \<Rightarrow> nat"
  random_seed :: "nat \<Rightarrow> 'g"
  normal_draw :: "'g \<Rightarrow> real \<Rightarrow> real \<Rightarrow> nat \<Rightarrow> nat \<Rightarrow> matrix \<times> 'g"

text \<open>\<open>np.random.seed(seed)\<close> overwrites the global generator state.\<close>

definition np_random_seed :: "'g library \<Rightarrow> nat \<Rightarrow> 'g \<Rightarrow> 'g" where
  "np_random_seed lib seed g = random_seed lib seed"

text \<open>
  \<open>np.random.normal(loc, scale, size=(rows, cols))\<close> raises \<open>ValueError\<close> for a negative
  scale and for a negative dimension; otherwise it returns the array and advances the
  global state.
\<close>

definition np_random_normal ::
  "'g library \<Rightarrow> real \<Rightarrow> real \<Rightarrow> int \<Rightarrow> int \<Rightarrow> 'g \<Rightarrow> error + (matrix \<times> 'g)" where
  "np_random_normal lib loc scale rows cols g =
     (if scale < 0 \<or> rows < 0 \<or> cols < 0 then Inl ValueError
      else Inr (normal_draw lib g loc scale (nat rows) (nat cols)))"

text \<open>
  \<open>np.mean\<close> of an empty array is \<open>nan\<close>, which no real number denotes (and HOL's
  \<open>x / 0\<close> is \<open>0\<close>); the model reports it as \<open>NanResult\<close>.
\<close>

definition np_mean :: "real list \<Rightarrow> error + real" where
  "np_mean xs = (if xs = [] then Inl NanResult else Inr (sum_list xs / real (length xs)))"

definition np_any :: "bool list \<Rightarrow> bool" where
  "np_any ms = list_ex (\<lambda>m. m) ms"

text \<open>Boolean-mask updates \<open>a[mask] = v\<close>, \<open>a[mask] *= k\<close> and \<open>a[mask] += m[mask, t]\<close>.\<close>

definition mask_set :: "bool list \<Rightarrow> 'a \<Rightarrow> 'a list \<Rightarrow> 'a list" where
  "mask_set ms v xs = map2 (\<lambda>x m. if m then v else x) xs ms"

definition mask_scale :: "bool list \<Rightarrow> real \<Rightarrow> real list \<Rightarrow> real list" where
  "mask_scale ms k xs = map2 (\<lambda>x m. if m then x * k else x) xs ms"

definition mask_add_column :: "bool list \<Rightarrow> matrix \<Rightarrow> nat \<Rightarrow> real list \<Rightarrow> real list" where
  "mask_add_column ms rm t xs =
     map (\<lambda>(i, x, m). if m then x + rm i t else x) (zip [0..<length xs] (zip xs ms))"

subsection \<open>\<open>run_scenarios\<close>\<close>

text \<open>The variables of \<open>simulate_decision\<close> that the closure \<open>run_scenarios\<close> reads.\<close>

record env =
  initial_energy :: real
  cost :: real
  base_decay :: real
  effective_decay :: real
  rand_std :: real
  random_matrix :: matrix
  horizon :: nat
  scenarios :: nat

text \<open>The two arrays \<open>E\<close> and \<open>alive\<close> of one run.\<close>

record ensemble =
  E :: "real list"
  alive :: "bool list"

text \<open>Lines 31-32: \<open>np.full(scenarios, initial_energy)\<close> and \<open>np.ones(scenarios, dtype=bool)\<close>.\<close>

definition fresh :: "env \<Rightarrow> ensemble" where
  "fresh ev = \<lparr>E = replicate (scenarios ev) (initial_energy ev),
               alive = replicate (scenarios ev) True\<rparr>"

text \<open>Lines 37-42: the upfront cost of the YES run.\<close>

definition pay_cost :: "real \<Rightarrow> ensemble \<Rightarrow> ensemble" where
  "pay_cost c s =
     (let E1 = map (\<lambda>x. x - c) (E s);
          dead_now = map (\<lambda>x. x \<le> 0) E1
      in if np_any dead_now
         then \<lparr>E = mask_set dead_now 0 E1, alive = mask_set dead_now False (alive s)\<rparr>
         else \<lparr>E = E1, alive = alive s\<rparr>)"

text \<open>Lines 35-43: the state and the decay rate with which the loop starts.\<close>

definition decay_rate :: "env \<Rightarrow> bool \<Rightarrow> real" where
  "decay_rate ev dec = (if dec then effective_decay ev else base_decay ev)"

definition start :: "env \<Rightarrow> bool \<Rightarrow> ensemble" where
  "start ev dec = (if dec then pay_cost (cost ev) (fresh ev) else fresh ev)"

text \<open>Lines 50-58: the body of the loop at step \<open>t\<close>.\<close>

definition step :: "env \<Rightarrow> real \<Rightarrow> nat \<Rightarrow> ensemble \<Rightarrow> ensemble" where
  "step ev rate t s =
     (let E1 = mask_scale (alive s) (1 - rate) (E s);
          E2 = (if rand_std ev > 0 then mask_add_column (alive s) (random_matrix ev) t E1
                else E1);
          newly_dead = map2 (\<lambda>x m. x \<le> 0 \<and> m) E2 (alive s)
      in if np_any newly_dead
         then \<lparr>E = mask_set newly_dead 0 E2, alive = mask_set newly_dead False (alive s)\<rparr>
         else \<lparr>E = E2, alive = alive s\<rparr>)"

text \<open>Lines 46-58: the loop over the steps still to run, with its early \<open>break\<close>.\<close>

fun time_steps :: "env \<Rightarrow> real \<Rightarrow> nat list \<Rightarrow> ensemble \<Rightarrow> ensemble" where
  "time_steps ev rate [] s = s"
| "time_steps ev rate (t # ts) s =
     (if \<not> np_any (alive s) then s else time_steps ev rate ts (step ev rate t s))"

text \<open>
  The arrays of \<open>run_scenarios(decision)\<close> when the loop has gone through the steps
  \<open>0, ..., k - 1\<close> (or has left early).
\<close>

definition state_after :: "env \<Rightarrow> bool \<Rightarrow> nat \<Rightarrow> ensemble" where
  "state_after ev dec k = time_steps ev (decay_rate ev dec) [0..<k] (start ev dec)"

text \<open>Lines 61-63: the two outcome metrics.\<close>

definition metrics :: "ensemble \<Rightarrow> error + (real \<times> real)" where
  "metrics s =
     (case np_mean (map (\<lambda>x. if x > 0 then 1 else 0) (E s)) of
        Inl e \<Rightarrow> Inl e
      | Inr survival_rate \<Rightarrow>
          (case np_mean (E s) of
             Inl e \<Rightarrow> Inl e
           | Inr avg_final_energy \<Rightarrow> Inr (survival_rate, avg_final_energy)))"

definition run_scenarios :: "env \<Rightarrow> bool \<Rightarrow> error + (real \<times> real)" where
  "run_scenarios ev dec = metrics (state_after ev dec (horizon ev))"

subsection \<open>\<open>simulate_decision\<close>\<close>

definition derive_seed :: "'g library \<Rightarrow> seed_key \<Rightarrow> nat" where
  "derive_seed lib seed_key = sha256_int lib seed_key mod 2 ^ 32"

text \<open>Lines 13-19 and the array of line 27, as the closure sees them.\<close>

definition closure :: "real \<Rightarrow> real \<Rightarrow> real \<Rightarrow> real \<Rightarrow> int \<Rightarrow> int \<Rightarrow> matrix \<Rightarrow> env" where
  "closure init_energy cost_frac benefit_frac risk_frac hor scen rm =
     \<lparr>initial_energy = init_energy,
      cost = init_energy * cost_frac,
      base_decay = 5 / 100,
      effective_decay = max 0 (5 / 100 * (1 - benefit_frac)),
      rand_std = 1 / 10 * init_energy * risk_frac,
      random_matrix = rm,
      horizon = nat hor,
      scenarios = nat scen\<rparr>"

text \<open>
  Lines 23-27: the seed, the reseeding of the global generator and the one call that
  fills the noise array. The argument \<open>g\<close> is the global generator state at the call.
\<close>

definition generate_noise ::
  "'g library \<Rightarrow> 'g \<Rightarrow> real \<Rightarrow> real \<Rightarrow> real \<Rightarrow> real \<Rightarrow> int \<Rightarrow> int \<Rightarrow> error + (matrix \<times> 'g)" where
  "generate_noise lib g init_energy cost_frac benefit_frac risk_frac hor scen =
     (let seed = derive_seed lib (init_energy, cost_frac, benefit_frac, risk_frac, hor);
          g1 = np_random_seed lib seed g
      in np_random_normal lib 0 (1 / 10 * init_energy * risk_frac) scen hor g1)"

text \<open>
  The result is the quadruple \<open>(surv_yes, surv_no, avg_yes, avg_no)\<close> with the global
  generator state the call leaves behind.
\<close>

definition simulate_decision ::
  "'g library \<Rightarrow> 'g \<Rightarrow> real \<Rightarrow> real \<Rightarrow> real \<Rightarrow> real \<Rightarrow> int \<Rightarrow> int
     \<Rightarrow> error + ((real \<times> real \<times> real \<times> real) \<times> 'g)" where
  "simulate_decision lib g init_energy cost_frac benefit_frac risk_frac hor scen =
     (case generate_noise lib g init_energy cost_frac benefit_frac risk_frac hor scen of
        Inl e \<Rightarrow> Inl e
      | Inr (rm, g2) \<Rightarrow>
          (let ev = closure init_energy cost_frac benefit_frac risk_frac hor scen rm
           in case run_scenarios ev True of
                Inl e \<Rightarrow> Inl e
              | Inr (surv_yes, avg_yes) \<Rightarrow>
                  (case run_scenarios ev False of
                     Inl e \<Rightarrow> Inl e
                   | Inr (surv_no, avg_no) \<Rightarrow>
                       Inr ((surv_yes, surv_no, avg_yes, avg_no), g2))))"

subsection \<open>The decision rule of the callers\<close>

definition decision :: "real \<Rightarrow> real \<Rightarrow> real \<Rightarrow> real \<Rightarrow> string" where
  "decision surv_yes surv_no avg_yes avg_no =
     (if surv_yes - surv_no > 1 / 100 then ''YES''
      else if surv_no - surv_yes > 1 / 100 then ''NO''
      else if avg_yes \<ge> avg_no then ''YES'' else ''NO'')"

subsection \<open>A concrete library\<close>

text \<open>
  An instance of the library interface for evaluating the engine at concrete inputs:
  the generator state is a counter starting at the seed, and the array entry
  \<open>(i, t)\<close> is \<open>loc + scale * gauss seed (i * cols + t)\<close> for a given stream \<open>gauss\<close>
  of standard draws per seed.
\<close>

definition stream_library :: "(seed_key \<Rightarrow> nat) \<Rightarrow> (nat \<Rightarrow> nat \<Rightarrow> real) \<Rightarrow> nat library" where
  "stream_library hash gauss =
     \<lparr>sha256_int = hash,
      random_seed = (\<lambda>seed. seed),
      normal_draw = (\<lambda>g loc scale rows cols.
         ((\<lambda>i t. loc + scale * gauss g (i * cols + t)), g + rows * cols))\<rparr>"

text \<open>
  The values of the real libraries that two invocations compared below consume. The
  callers pass floats (\<open>initial_energy = 100.0\<close>, \<open>float(input(...))\<close>) and an integer
  horizon, so \<open>simulate_decision(100.0, 0.1, 0.0, 1.0, 1, 1)\<close> and
  \<open>simulate_decision(100.0, 0.2, 0.0, 1.0, 1, 1)\<close> format the keys
  \<open>100.0-0.1-0.0-1.0-1\<close> and \<open>100.0-0.2-0.0-1.0-1\<close>. \<open>sha256_at\<close> gives the SHA-256
  digests of these two strings as integers; modulo \<open>2 ^ 32\<close> they are the seeds
  910878918 and 2555750145. \<open>gauss_at\<close> gives the first standard normal draw of NumPy's
  legacy generator (MT19937 as \<open>np.random.seed\<close> initialises it, polar method) under
  each of these seeds: the doubles 0.45201615885413604 and 2.162273995822132, as the
  exact rationals they denote. Other keys, seeds and draws are not consumed by the two
  invocations and are set to 0.
\<close>

definition sha256_at :: "seed_key \<Rightarrow> nat" where
  "sha256_at key =
     (if key = (100, 1 / 10, 0, 1, 1)
      then 29025529566737916533589105782975122012069755621047966587252102027109596850374
      else if key = (100, 1 / 5, 0, 1, 1)
      then 11338023572450261237801919271100225745768155986312425891335231056287651702529
      else 0)"

definition gauss_at :: "nat \<Rightarrow> nat \<Rightarrow> real" where
  "gauss_at seed n =
     (if seed = 910878918 \<and> n = 0 then 1017849902290465 / 2 ^ 51
      else if seed = 2555750145 \<and> n = 0 then 2434504090464367 / 2 ^ 50
      else 0)"

subsection \<open>Single scenarios\<close>

text \<open>
  The arrays are updated elementwise, so a run is determined by what happens to each
  scenario on its own. The definitions of this subsection describe one scenario; the
  lemmas of the next section show that the array code computes exactly this.
\<close>

text \<open>
  The value that step \<open>t\<close> adds to the energy of scenario \<open>i\<close> while it is alive:
  the array entry when \<open>rand_std > 0\<close>, nothing otherwise (line 52).
\<close>

definition noise_at :: "env \<Rightarrow> nat \<Rightarrow> nat \<Rightarrow> real" where
  "noise_at ev i t = (if rand_std ev > 0 then random_matrix ev i t else 0)"

text \<open>
  One pass through the loop body, seen from a single scenario with energy and alive
  flag \<open>c\<close>, factor \<open>k = 1 - decay_rate\<close> and added value \<open>nz\<close>.
\<close>

definition next_cell :: "real \<Rightarrow> real \<Rightarrow> real \<times> bool \<Rightarrow> real \<times> bool" where
  "next_cell k nz c =
     (if snd c then (if fst c * k + nz \<le> 0 then (0, False) else (fst c * k + nz, True))
      else c)"

text \<open>The energy and the alive flag of scenario \<open>i\<close>.\<close>

definition cell :: "ensemble \<Rightarrow> nat \<Rightarrow> real \<times> bool" where
  "cell s i = (E s ! i, alive s ! i)"

text \<open>Both arrays have \<open>n\<close> entries.\<close>

definition shape :: "nat \<Rightarrow> ensemble \<Rightarrow> bool" where
  "shape n s = (length (E s) = n \<and> length (alive s) = n)"

text \<open>The passes of one scenario through the steps \<open>ts\<close>.\<close>

fun cell_run :: "real \<Rightarrow> (nat \<Rightarrow> real) \<Rightarrow> nat list \<Rightarrow> real \<times> bool \<Rightarrow> real \<times> bool" where
  "cell_run k nz [] c = c"
| "cell_run k nz (t # ts) c = cell_run k nz ts (next_cell k (nz t) c)"

text \<open>The energy and flag with which every scenario enters the loop.\<close>

definition start_cell :: "env \<Rightarrow> bool \<Rightarrow> real \<times> bool" where
  "start_cell ev dec =
     (if dec \<and> initial_energy ev - cost ev \<le> 0 then (0, False)
      else if dec then (initial_energy ev - cost ev, True)
      else (initial_energy ev, True))"

subsection \<open>Results\<close>

text \<open>\<open>np.mean(E > 0)\<close> and \<open>np.mean(E)\<close> of a non-empty array.\<close>

definition survival_of :: "real list \<Rightarrow> real" where
  "survival_of xs = sum_list (map (\<lambda>x. if x > 0 then 1 else 0) xs) / real (length xs)"

definition average_of :: "real list \<Rightarrow> real" where
  "average_of xs = sum_list xs / real (length xs)"

text \<open>The quadruple that \<open>simulate_decision\<close> returns, read off the final arrays of the two runs.\<close>

definition outcome :: "env \<Rightarrow> real \<times> real \<times> real \<times> real" where
  "outcome ev =
     (survival_of (E (state_after ev True (horizon ev))),
      survival_of (E (state_after ev False (horizon ev))),
      average_of (E (state_after ev True (horizon ev))),
      average_of (E (state_after ev False (horizon ev))))"

text \<open>
  What the one call of \<open>np.random.normal\<close> yields after the reseeding: the noise array
  and the generator state left behind.
\<close>

definition drawn ::
  "'g library \<Rightarrow> real \<Rightarrow> real \<Rightarrow> real \<Rightarrow> real \<Rightarrow> int \<Rightarrow> int \<Rightarrow> matrix \<times> 'g" where
  "drawn lib init_energy cost_frac benefit_frac risk_frac hor scen =
     normal_draw lib
       (random_seed lib (derive_seed lib (init_energy, cost_frac, benefit_frac, risk_frac, hor)))
       0 (1 / 10 * init_energy * risk_frac) (nat scen) (nat hor)"

subsection \<open>Invariants\<close>

text \<open>A scenario is settled when it is alive or its energy is exactly 0.\<close>

definition settled :: "real \<times> bool \<Rightarrow> bool" where
  "settled c = (snd c \<or> fst c = 0)"

text \<open>
  A scenario is sound when its energy is not negative and its flag says whether the
  energy is positive.
\<close>

definition sound :: "real \<times> bool \<Rightarrow> bool" where
  "sound c = (0 \<le> fst c \<and> snd c = (0 < fst c))"

section \<open>Properties of the runs\<close>

subsection \<open>The array code computes the single-scenario passes\<close>

lemma np_any_iff: "np_any ms = (\<exists>i < length ms. ms ! i)"
  by (simp add: np_any_def list_ex_length)

lemma mask_set_nth:
  "length ms = length xs \<Longrightarrow> i < length xs \<Longrightarrow> mask_set ms v xs ! i = (if ms ! i then v else xs ! i)"
  by (simp add: mask_set_def)

lemma length_mask_set: "length ms = length xs \<Longrightarrow> length (mask_set ms v xs) = length xs"
  by (simp add: mask_set_def)

lemma mask_scale_nth:
  "length ms = length xs \<Longrightarrow> i < length xs \<Longrightarrow>
     mask_scale ms k xs ! i = (if ms ! i then xs ! i * k else xs ! i)"
  by (simp add: mask_scale_def)

lemma length_mask_scale: "length ms = length xs \<Longrightarrow> length (mask_scale ms k xs) = length xs"
  by (simp add: mask_scale_def)

lemma mask_add_column_nth:
  assumes "length ms = length xs" "i < length xs"
  shows "mask_add_column ms rm t xs ! i = (if ms ! i then xs ! i + rm i t else xs ! i)"
proof -
  have "i < length (zip [0..<length xs] (zip xs ms))"
    using assms by simp
  then have "mask_add_column ms rm t xs ! i =
      (\<lambda>(i, x, m). if m then x + rm i t else x) (zip [0..<length xs] (zip xs ms) ! i)"
    unfolding mask_add_column_def by (rule nth_map)
  also have "zip [0..<length xs] (zip xs ms) ! i = (i, xs ! i, ms ! i)"
    using assms by (simp add: nth_zip)
  finally show ?thesis by simp
qed

lemma length_mask_add_column:
  "length ms = length xs \<Longrightarrow> length (mask_add_column ms rm t xs) = length xs"
  by (simp add: mask_add_column_def)

lemma shape_step: "shape n s \<Longrightarrow> shape n (step ev rate t s)"
  by (simp add: shape_def step_def Let_def length_mask_set length_mask_scale length_mask_add_column)

lemma cell_step:
  assumes "shape n s" "i < n"
  shows "cell (step ev rate t s) i = next_cell (1 - rate) (noise_at ev i t) (cell s i)"
proof -
  define E1 where "E1 = mask_scale (alive s) (1 - rate) (E s)"
  define E2 where "E2 = (if rand_std ev > 0 then mask_add_column (alive s) (random_matrix ev) t E1 else E1)"
  define nd where "nd = map2 (\<lambda>x m. x \<le> 0 \<and> m) E2 (alive s)"
  have len: "length (E s) = n" "length (alive s) = n"
    using assms by (simp_all add: shape_def)
  have l1: "length E1 = n"
    by (simp add: E1_def length_mask_scale len)
  have l2: "length E2 = n"
    by (simp add: E2_def length_mask_add_column len l1)
  have l3: "length nd = n"
    by (simp add: nd_def l2 len)
  have e1: "E1 ! i = (if alive s ! i then E s ! i * (1 - rate) else E s ! i)"
    using assms by (simp add: E1_def mask_scale_nth len)
  have e2: "E2 ! i = (if alive s ! i then E s ! i * (1 - rate) + noise_at ev i t else E s ! i)"
    using assms by (simp add: E2_def mask_add_column_nth len l1 e1 noise_at_def)
  have n3: "nd ! i = (E2 ! i \<le> 0 \<and> alive s ! i)"
    using assms by (simp add: nd_def l2 len)
  have st: "step ev rate t s =
      (if np_any nd then \<lparr>E = mask_set nd 0 E2, alive = mask_set nd False (alive s)\<rparr>
       else \<lparr>E = E2, alive = alive s\<rparr>)"
    by (simp add: step_def Let_def E1_def E2_def nd_def)
  show ?thesis
  proof (cases "np_any nd")
    case True
    then have "cell (step ev rate t s) i =
        (if nd ! i then 0 else E2 ! i, if nd ! i then False else alive s ! i)"
      using assms by (simp add: st cell_def mask_set_nth l2 l3 len)
    then show ?thesis
      by (simp add: n3 e2 next_cell_def cell_def)
  next
    case False
    then have "\<not> nd ! i"
      using assms l3 by (auto simp: np_any_iff)
    moreover from False have "cell (step ev rate t s) i = (E2 ! i, alive s ! i)"
      by (simp add: st cell_def)
    ultimately show ?thesis
      by (auto simp: n3 e2 next_cell_def cell_def)
  qed
qed


lemma next_cell_dead: "\<not> snd c \<Longrightarrow> next_cell k nz c = c"
  by (simp add: next_cell_def)

lemma cell_run_dead: "\<not> snd c \<Longrightarrow> cell_run k nz ts c = c"
  by (induction ts) (simp_all add: next_cell_dead)

lemma cell_run_append: "cell_run k nz (ts @ us) c = cell_run k nz us (cell_run k nz ts c)"
  by (induction ts arbitrary: c) simp_all

lemma shape_time_steps: "shape n s \<Longrightarrow> shape n (time_steps ev rate ts s)"
  by (induction ts arbitrary: s) (simp_all add: shape_step)

lemma cell_time_steps:
  assumes "shape n s" "i < n"
  shows "cell (time_steps ev rate ts s) i = cell_run (1 - rate) (noise_at ev i) ts (cell s i)"
  using assms
proof (induction ts arbitrary: s)
  case Nil
  then show ?case by simp
next
  case (Cons t ts)
  show ?case
  proof (cases "np_any (alive s)")
    case True
    then have "cell (time_steps ev rate (t # ts) s) i = cell (time_steps ev rate ts (step ev rate t s)) i"
      by simp
    also have "\<dots> = cell_run (1 - rate) (noise_at ev i) ts (cell (step ev rate t s) i)"
      using Cons.prems by (intro Cons.IH shape_step)
    finally show ?thesis
      using Cons.prems by (simp add: cell_step)
  next
    case False
    then have "\<not> alive s ! i"
      using Cons.prems by (auto simp: np_any_iff shape_def)
    then have "\<not> snd (cell s i)"
      by (simp add: cell_def)
    then show ?thesis
      using False by (simp add: cell_run_dead next_cell_dead)
  qed
qed

lemma shape_fresh: "shape (scenarios ev) (fresh ev)"
  by (simp add: shape_def fresh_def)

lemma cell_fresh: "i < scenarios ev \<Longrightarrow> cell (fresh ev) i = (initial_energy ev, True)"
  by (simp add: cell_def fresh_def)

lemma shape_pay_cost: "shape n s \<Longrightarrow> shape n (pay_cost c s)"
  by (simp add: shape_def pay_cost_def Let_def length_mask_set)

lemma cell_pay_cost:
  assumes "shape n s" "i < n"
  shows "cell (pay_cost c s) i =
     (if E s ! i - c \<le> 0 then (0, False) else (E s ! i - c, alive s ! i))"
proof -
  define E1 where "E1 = map (\<lambda>x. x - c) (E s)"
  define dn where "dn = map (\<lambda>x. x \<le> 0) E1"
  have len: "length (E s) = n" "length (alive s) = n" "length E1 = n" "length dn = n"
    using assms by (simp_all add: shape_def E1_def dn_def)
  have e1: "E1 ! i = E s ! i - c"
    using assms len by (simp add: E1_def)
  have d: "dn ! i = (E s ! i - c \<le> 0)"
    using assms len by (simp add: dn_def e1)
  have pc: "pay_cost c s =
      (if np_any dn then \<lparr>E = mask_set dn 0 E1, alive = mask_set dn False (alive s)\<rparr>
       else \<lparr>E = E1, alive = alive s\<rparr>)"
    by (simp add: pay_cost_def Let_def E1_def dn_def)
  show ?thesis
  proof (cases "np_any dn")
    case True
    then show ?thesis
      using assms len by (simp add: pc cell_def mask_set_nth d e1)
  next
    case False
    then have "\<not> dn ! i"
      using assms len by (auto simp: np_any_iff)
    with False show ?thesis
      by (simp add: pc cell_def d e1)
  qed
qed

lemma shape_start: "shape (scenarios ev) (start ev dec)"
  by (simp add: start_def shape_fresh shape_pay_cost)

lemma cell_start:
  assumes "i < scenarios ev"
  shows "cell (start ev dec) i = start_cell ev dec"
proof (cases dec)
  case True
  have "E (fresh ev) ! i = initial_energy ev" "alive (fresh ev) ! i"
    using assms by (simp_all add: fresh_def)
  then show ?thesis
    using True assms by (simp add: start_def start_cell_def cell_pay_cost [OF shape_fresh])
next
  case False
  then show ?thesis
    using assms by (simp add: start_def start_cell_def cell_fresh)
qed

lemma shape_state_after: "shape (scenarios ev) (state_after ev dec k)"
  by (simp add: state_after_def shape_time_steps shape_start)

lemma cell_state_after:
  "i < scenarios ev \<Longrightarrow>
     cell (state_after ev dec k) i =
       cell_run (1 - decay_rate ev dec) (noise_at ev i) [0..<k] (start_cell ev dec)"
  by (simp add: state_after_def cell_time_steps [OF shape_start] cell_start)

subsection \<open>When the engine returns\<close>

lemma metrics_shape:
  assumes "shape n s" "0 < n"
  shows "metrics s = Inr (survival_of (E s), average_of (E s))"
proof -
  have "E s \<noteq> []"
    using assms by (auto simp: shape_def)
  then show ?thesis
    by (simp add: metrics_def np_mean_def survival_of_def average_of_def)
qed

lemma run_scenarios_Inr:
  assumes "0 < scenarios ev"
  shows "run_scenarios ev dec =
     Inr (survival_of (E (state_after ev dec (horizon ev))),
          average_of (E (state_after ev dec (horizon ev))))"
  unfolding run_scenarios_def using shape_state_after assms by (rule metrics_shape)

lemma run_scenarios_Inl:
  assumes "scenarios ev = 0"
  shows "run_scenarios ev dec = Inl NanResult"
proof -
  have "shape 0 (state_after ev dec (horizon ev))"
    using shape_state_after [of ev dec "horizon ev"] assms by simp
  then have "E (state_after ev dec (horizon ev)) = []"
    by (simp add: shape_def)
  then show ?thesis
    by (simp add: run_scenarios_def metrics_def np_mean_def)
qed

lemma generate_noise_Inr:
  assumes "0 \<le> 1 / 10 * init_energy * risk_frac" "0 \<le> hor" "0 \<le> scen"
  shows "generate_noise lib g init_energy cost_frac benefit_frac risk_frac hor scen =
     Inr (drawn lib init_energy cost_frac benefit_frac risk_frac hor scen)"
  using assms
  by (simp add: generate_noise_def np_random_normal_def np_random_seed_def drawn_def Let_def
      not_less)

lemma generate_noise_Inl:
  assumes "1 / 10 * init_energy * risk_frac < 0 \<or> hor < 0 \<or> scen < 0"
  shows "generate_noise lib g init_energy cost_frac benefit_frac risk_frac hor scen =
     Inl ValueError"
  using assms
  by (auto simp add: generate_noise_def np_random_normal_def Let_def)

lemma scenarios_closure [simp]:
  "scenarios (closure init_energy cost_frac benefit_frac risk_frac hor scen rm) = nat scen"
  by (simp add: closure_def)

lemma horizon_closure [simp]:
  "horizon (closure init_energy cost_frac benefit_frac risk_frac hor scen rm) = nat hor"
  by (simp add: closure_def)

lemma simulate_decision_Inr:
  assumes "0 \<le> 1 / 10 * init_energy * risk_frac" "0 \<le> hor" "1 \<le> scen"
  shows "simulate_decision lib g init_energy cost_frac benefit_frac risk_frac hor scen =
     Inr (outcome (closure init_energy cost_frac benefit_frac risk_frac hor scen
                     (fst (drawn lib init_energy cost_frac benefit_frac risk_frac hor scen))),
          snd (drawn lib init_energy cost_frac benefit_frac risk_frac hor scen))"
proof -
  obtain rm g2 where d: "drawn lib init_energy cost_frac benefit_frac risk_frac hor scen = (rm, g2)"
    by (cases "drawn lib init_energy cost_frac benefit_frac risk_frac hor scen")
  have gen: "generate_noise lib g init_energy cost_frac benefit_frac risk_frac hor scen = Inr (rm, g2)"
    using assms by (simp add: generate_noise_Inr d)
  have pos: "0 < scenarios (closure init_energy cost_frac benefit_frac risk_frac hor scen rm)"
    using assms by simp
  show ?thesis
    by (simp add: simulate_decision_def gen Let_def run_scenarios_Inr [OF pos] d outcome_def)
qed

lemma simulate_decision_ValueError:
  assumes "1 / 10 * init_energy * risk_frac < 0 \<or> hor < 0 \<or> scen < 0"
  shows "simulate_decision lib g init_energy cost_frac benefit_frac risk_frac hor scen =
     Inl ValueError"
  by (simp add: simulate_decision_def generate_noise_Inl [OF assms])

subsection \<open>Invariants of a scenario\<close>

lemma cells_uniform:
  assumes "shape n s" "\<And>i. i < n \<Longrightarrow> cell s i = (e, a)"
  shows "E s = replicate n e" "alive s = replicate n a"
proof -
  have len: "length (E s) = n" "length (alive s) = n"
    using assms(1) by (simp_all add: shape_def)
  have "E s ! i = e" "alive s ! i = a" if "i < n" for i
    using assms(2) [OF that] by (simp_all add: cell_def)
  then show "E s = replicate n e" "alive s = replicate n a"
    using len by (simp_all add: list_eq_iff_nth_eq)
qed

lemma next_cell_settled: "settled c \<Longrightarrow> settled (next_cell k nz c)"
  by (auto simp: settled_def next_cell_def)

lemma cell_run_settled: "settled c \<Longrightarrow> settled (cell_run k nz ts c)"
  by (induction ts arbitrary: c) (simp_all add: next_cell_settled)

lemma start_cell_settled: "settled (start_cell ev dec)"
  by (simp add: settled_def start_cell_def)

lemma next_cell_sound: "sound c \<Longrightarrow> sound (next_cell k nz c)"
  by (auto simp: sound_def next_cell_def not_le)

lemma cell_run_sound: "sound c \<Longrightarrow> sound (cell_run k nz ts c)"
  by (induction ts arbitrary: c) (simp_all add: next_cell_sound)

lemma start_cell_sound: "dec \<or> 0 < initial_energy ev \<Longrightarrow> sound (start_cell ev dec)"
  by (auto simp add: sound_def start_cell_def)

lemma state_after_settled:
  "i < scenarios ev \<Longrightarrow> settled (cell (state_after ev dec k) i)"
  by (simp add: cell_state_after cell_run_settled start_cell_settled)

lemma state_after_sound:
  "i < scenarios ev \<Longrightarrow> dec \<or> 0 < initial_energy ev \<Longrightarrow> sound (cell (state_after ev dec k) i)"
  by (simp add: cell_state_after cell_run_sound start_cell_sound)

subsection \<open>The two metrics\<close>

lemma sum_indicator: "sum_list (map (\<lambda>x. if P x then 1 else 0) xs) = real (length (filter P xs))"
  by (induction xs) simp_all

lemma survival_of_bounds: "0 \<le> survival_of xs" "survival_of xs \<le> 1"
proof -
  have "real (length (filter (\<lambda>x. 0 < x) xs)) \<le> real (length xs)"
    by simp
  then show "survival_of xs \<le> 1"
    unfolding survival_of_def sum_indicator by (simp add: divide_le_eq_1)
  show "0 \<le> survival_of xs"
    unfolding survival_of_def sum_indicator by simp
qed

lemma average_of_nonneg: "(\<And>x. x \<in> set xs \<Longrightarrow> 0 \<le> x) \<Longrightarrow> 0 \<le> average_of xs"
  by (simp add: average_of_def sum_list_nonneg)

lemma survival_zero_iff:
  assumes "xs \<noteq> []"
  shows "survival_of xs = 0 \<longleftrightarrow> (\<forall>x \<in> set xs. \<not> 0 < x)"
  using assms by (simp add: survival_of_def sum_indicator filter_empty_conv)

lemma length_filter_full: "length (filter P xs) = length xs \<longleftrightarrow> (\<forall>x \<in> set xs. P x)"
proof (induction xs)
  case Nil
  show ?case by simp
next
  case (Cons a xs)
  have le: "length (filter P xs) \<le> length xs"
    by simp
  show ?case
  proof (cases "P a")
    case True
    with Cons show ?thesis by simp
  next
    case False
    from le have "length (filter P xs) \<noteq> Suc (length xs)"
      by linarith
    with False show ?thesis by simp
  qed
qed

lemma survival_one_iff:
  assumes "xs \<noteq> []"
  shows "survival_of xs = 1 \<longleftrightarrow> (\<forall>x \<in> set xs. 0 < x)"
proof -
  have "survival_of xs = 1 \<longleftrightarrow> length (filter (\<lambda>x. 0 < x) xs) = length xs"
    using assms by (auto simp: survival_of_def sum_indicator)
  then show ?thesis
    by (simp add: length_filter_full)
qed

lemma average_zero_iff:
  assumes "xs \<noteq> []" "\<And>x. x \<in> set xs \<Longrightarrow> 0 \<le> x"
  shows "average_of xs = 0 \<longleftrightarrow> (\<forall>x \<in> set xs. \<not> 0 < x)"
proof -
  have "average_of xs = 0 \<longleftrightarrow> sum_list xs = 0"
    using assms(1) by (simp add: average_of_def)
  also have "\<dots> \<longleftrightarrow> (\<forall>x \<in> set xs. x = 0)"
    using assms(2) by (rule sum_list_nonneg_eq_0_iff)
  also have "\<dots> \<longleftrightarrow> (\<forall>x \<in> set xs. \<not> 0 < x)"
    using assms(2) by (auto simp: not_less intro: antisym)
  finally show ?thesis .
qed

lemma state_after_nonneg:
  assumes "dec \<or> 0 < initial_energy ev" "x \<in> set (E (state_after ev dec k))"
  shows "0 \<le> x"
proof -
  have "length (E (state_after ev dec k)) = scenarios ev"
    using shape_state_after [of ev dec k] by (simp add: shape_def)
  with assms(2) obtain i where i: "i < scenarios ev" "x = E (state_after ev dec k) ! i"
    by (auto simp: in_set_conv_nth)
  from state_after_sound [OF i(1) assms(1), of k] show ?thesis
    by (simp add: sound_def cell_def i(2))
qed

lemma alive_nth_cell: "alive s ! i = snd (cell s i)"
  by (simp add: cell_def)

lemma E_nth_cell: "E s ! i = fst (cell s i)"
  by (simp add: cell_def)

lemma cell_state_after_split:
  assumes "i < scenarios ev" "j \<le> k"
  shows "cell (state_after ev dec k) i =
     cell_run (1 - decay_rate ev dec) (noise_at ev i) [j..<k] (cell (state_after ev dec j) i)"
proof -
  have "[0..<k] = [0..<j] @ [j..<k]"
    using assms(2) upt_add_eq_append [of 0 j "k - j"] by simp
  then show ?thesis
    using assms(1) by (simp add: cell_state_after cell_run_append)
qed

subsection \<open>Further facts about runs\<close>

lemma initial_energy_closure [simp]:
  "initial_energy (closure init_energy cost_frac benefit_frac risk_frac hor scen rm) = init_energy"
  by (simp add: closure_def)

lemma E_state_after_nonempty: "0 < scenarios ev \<Longrightarrow> E (state_after ev dec k) \<noteq> []"
  using shape_state_after [of ev dec k] by (auto simp: shape_def)

lemma run_ranges:
  assumes "0 < scenarios ev" "dec \<or> 0 < initial_energy ev"
  shows "0 \<le> average_of (E (state_after ev dec k))"
    and "survival_of (E (state_after ev dec k)) = 0 \<longleftrightarrow> average_of (E (state_after ev dec k)) = 0"
proof -
  have nn: "\<And>x. x \<in> set (E (state_after ev dec k)) \<Longrightarrow> 0 \<le> x"
    using assms(2) by (rule state_after_nonneg)
  then show "0 \<le> average_of (E (state_after ev dec k))"
    by (rule average_of_nonneg)
  show "survival_of (E (state_after ev dec k)) = 0 \<longleftrightarrow> average_of (E (state_after ev dec k)) = 0"
    using survival_zero_iff [OF E_state_after_nonempty [OF assms(1)]]
      average_zero_iff [OF E_state_after_nonempty [OF assms(1)] nn]
    by simp
qed

lemma survival_of_replicate: "0 < n \<Longrightarrow> survival_of (replicate n e) = (if 0 < e then 1 else 0)"
  by (simp add: survival_of_def sum_list_replicate)

lemma average_of_replicate: "0 < n \<Longrightarrow> average_of (replicate n e) = e"
  by (simp add: average_of_def sum_list_replicate)

lemma ensemble_uniform:
  assumes "shape n s" "\<And>i. i < n \<Longrightarrow> cell s i = c"
  shows "s = \<lparr>E = replicate n (fst c), alive = replicate n (snd c)\<rparr>"
proof -
  have "\<And>i. i < n \<Longrightarrow> cell s i = (fst c, snd c)"
    using assms(2) by simp
  from cells_uniform [OF assms(1) this] show ?thesis
    by simp
qed

lemma noise_at_quiet: "\<not> 0 < rand_std ev \<Longrightarrow> noise_at ev i = (\<lambda>t. 0)"
  by (simp add: noise_at_def fun_eq_iff)

lemma state_after_quiet:
  assumes "\<not> 0 < rand_std ev"
  shows "state_after ev dec k =
     \<lparr>E = replicate (scenarios ev)
            (fst (cell_run (1 - decay_rate ev dec) (\<lambda>t. 0) [0..<k] (start_cell ev dec))),
      alive = replicate (scenarios ev)
            (snd (cell_run (1 - decay_rate ev dec) (\<lambda>t. 0) [0..<k] (start_cell ev dec)))\<rparr>"
  using shape_state_after
  by (rule ensemble_uniform) (simp add: cell_state_after noise_at_quiet [OF assms])

lemma state_after_dead_start:
  assumes "\<not> snd (start_cell ev dec)"
  shows "state_after ev dec k =
     \<lparr>E = replicate (scenarios ev) (fst (start_cell ev dec)), alive = replicate (scenarios ev) False\<rparr>"
proof -
  have "state_after ev dec k =
     \<lparr>E = replicate (scenarios ev) (fst (start_cell ev dec)),
      alive = replicate (scenarios ev) (snd (start_cell ev dec))\<rparr>"
    using shape_state_after
    by (rule ensemble_uniform) (simp add: cell_state_after cell_run_dead [OF assms])
  then show ?thesis
    using assms by simp
qed

lemma state_after_0: "state_after ev dec 0 = start ev dec"
  by (simp add: state_after_def)

lemma start_uniform:
  "start ev dec =
     \<lparr>E = replicate (scenarios ev) (fst (start_cell ev dec)),
      alive = replicate (scenarios ev) (snd (start_cell ev dec))\<rparr>"
  using shape_start by (rule ensemble_uniform) (simp add: cell_start)

lemma start_cell_closure:
  "start_cell (closure init_energy cost_frac benefit_frac risk_frac hor scen rm) dec =
     (if dec \<and> init_energy - init_energy * cost_frac \<le> 0 then (0, False)
      else if dec then (init_energy - init_energy * cost_frac, True)
      else (init_energy, True))"
  by (simp add: start_cell_def closure_def)

lemma rand_std_closure [simp]:
  "rand_std (closure init_energy cost_frac benefit_frac risk_frac hor scen rm) =
     1 / 10 * init_energy * risk_frac"
  by (simp add: closure_def)

lemma decay_rate_closure:
  "decay_rate (closure init_energy cost_frac benefit_frac risk_frac hor scen rm) dec =
     (if dec then max 0 (5 / 100 * (1 - benefit_frac)) else 5 / 100)"
  by (simp add: decay_rate_def closure_def)

lemma cell_state_after_Suc:
  assumes "i < scenarios ev"
  shows "cell (state_after ev dec (Suc k)) i =
     next_cell (1 - decay_rate ev dec) (noise_at ev i k) (cell (state_after ev dec k) i)"
  using cell_state_after_split [OF assms, of k "Suc k" dec] by simp

lemma E_state_after_Suc:
  assumes "i < scenarios ev" "alive (state_after ev dec k) ! i"
  shows "E (state_after ev dec (Suc k)) ! i =
     (if E (state_after ev dec k) ! i * (1 - decay_rate ev dec) + noise_at ev i k \<le> 0 then 0
      else E (state_after ev dec k) ! i * (1 - decay_rate ev dec) + noise_at ev i k)"
  using assms(2)
  by (simp add: E_nth_cell alive_nth_cell cell_state_after_Suc [OF assms(1)] next_cell_def)

lemma simulate_decision_NanResult:
  assumes "0 \<le> 1 / 10 * init_energy * risk_frac" "0 \<le> hor" "scen = 0"
  shows "simulate_decision lib g init_energy cost_frac benefit_frac risk_frac hor scen =
     Inl NanResult"
proof -
  have gen: "generate_noise lib g init_energy cost_frac benefit_frac risk_frac hor scen =
      Inr (drawn lib init_energy cost_frac benefit_frac risk_frac hor scen)"
    using assms by (simp add: generate_noise_Inr)
  have "scenarios (closure init_energy cost_frac benefit_frac risk_frac hor scen rm) = 0" for rm
    using assms(3) by simp
  then show ?thesis
    by (simp add: simulate_decision_def gen Let_def run_scenarios_Inl split: prod.splits)
qed

lemma simulate_decision_Inr_iff:
  "(\<exists>q g'. simulate_decision lib g init_energy cost_frac benefit_frac risk_frac hor scen = Inr (q, g'))
     \<longleftrightarrow> 0 \<le> 1 / 10 * init_energy * risk_frac \<and> 0 \<le> hor \<and> 1 \<le> scen"
proof
  assume "\<exists>q g'. simulate_decision lib g init_energy cost_frac benefit_frac risk_frac hor scen = Inr (q, g')"
  then obtain q g' where r:
    "simulate_decision lib g init_energy cost_frac benefit_frac risk_frac hor scen = Inr (q, g')"
    by blast
  have a: "\<not> (1 / 10 * init_energy * risk_frac < 0 \<or> hor < 0 \<or> scen < 0)"
    using r simulate_decision_ValueError [of init_energy risk_frac hor scen lib g cost_frac benefit_frac]
    by auto
  then have "scen \<noteq> 0"
    using r simulate_decision_NanResult [of init_energy risk_frac hor scen lib g cost_frac benefit_frac]
    by auto
  with a show "0 \<le> 1 / 10 * init_energy * risk_frac \<and> 0 \<le> hor \<and> 1 \<le> scen"
    by auto
next
  assume a: "0 \<le> 1 / 10 * init_energy * risk_frac \<and> 0 \<le> hor \<and> 1 \<le> scen"
  show "\<exists>q g'. simulate_decision lib g init_energy cost_frac benefit_frac risk_frac hor scen = Inr (q, g')"
    by (intro exI)
      (rule simulate_decision_Inr
        [OF conjunct1 [OF a] conjunct1 [OF conjunct2 [OF a]] conjunct2 [OF conjunct2 [OF a]]])
qed

lemma cell_run_quiet_alive:
  "0 < e \<Longrightarrow> 0 < k \<Longrightarrow> cell_run k (\<lambda>t. 0) ts (e, True) = (e * k ^ length ts, True)"
proof (induction ts arbitrary: e)
  case Nil
  show ?case by simp
next
  case (Cons t ts)
  have "0 < e * k"
    using Cons.prems by simp
  then have "cell_run k (\<lambda>t. 0) ts (e * k, True) = (e * k * k ^ length ts, True)"
    using Cons.prems(2) by (rule Cons.IH)
  moreover have "next_cell k 0 (e, True) = (e * k, True)"
    using \<open>0 < e * k\<close> by (simp add: next_cell_def not_le)
  ultimately show ?case
    by (simp add: mult.assoc)
qed

lemma yes_power: "(6210::real) / 100 < 80 * (975 / 1000) ^ 10" "80 * (975 / 1000) ^ 10 < (6211::real) / 100"
  by (simp_all add: power_divide)

lemma no_power: "(5987::real) / 100 < 100 * (95 / 100) ^ 10" "100 * (95 / 100) ^ 10 < (5988::real) / 100"
  by (simp_all add: power_divide)

lemma concrete_outcome:
  "outcome (closure 100 (1 / 5) (1 / 2) 0 10 1 rm) =
     (1, 1, 80 * (975 / 1000) ^ 10, 100 * (95 / 100) ^ 10)"
proof -
  define ev where "ev = closure 100 (1 / 5) (1 / 2) 0 10 1 rm"
  have quiet: "\<not> 0 < rand_std ev"
    by (simp add: ev_def)
  have n: "scenarios ev = 1" "horizon ev = 10"
    by (simp_all add: ev_def)
  have len: "length [0..<10::nat] = 10"
    by simp
  have pos: "(0::real) < 80" "(0::real) < 975 / 1000" "(0::real) < 100" "(0::real) < 95 / 100"
    by simp_all
  have yes: "cell_run (1 - decay_rate ev True) (\<lambda>t. 0) [0..<10] (start_cell ev True) =
      (80 * (975 / 1000) ^ 10, True)"
  proof -
    have d: "1 - decay_rate ev True = 975 / 1000" and st: "start_cell ev True = (80, True)"
      by (simp_all add: ev_def decay_rate_closure start_cell_closure)
    show ?thesis
      unfolding d st using cell_run_quiet_alive [OF pos(1,2), of "[0..<10]"] by (simp only: len)
  qed
  have no: "cell_run (1 - decay_rate ev False) (\<lambda>t. 0) [0..<10] (start_cell ev False) =
      (100 * (95 / 100) ^ 10, True)"
  proof -
    have d: "1 - decay_rate ev False = 95 / 100" and st: "start_cell ev False = (100, True)"
      by (simp_all add: ev_def decay_rate_closure start_cell_closure)
    show ?thesis
      unfolding d st using cell_run_quiet_alive [OF pos(3,4), of "[0..<10]"] by (simp only: len)
  qed
  have sy: "E (state_after ev True (horizon ev)) = [80 * (975 / 1000) ^ 10]"
    unfolding state_after_quiet [OF quiet] n yes by simp
  have sn: "E (state_after ev False (horizon ev)) = [100 * (95 / 100) ^ 10]"
    unfolding state_after_quiet [OF quiet] n no by simp
  have "outcome ev = (1, 1, 80 * (975 / 1000) ^ 10, 100 * (95 / 100) ^ 10)"
    unfolding outcome_def sy sn by (simp add: survival_of_def average_of_def)
  then show ?thesis
    by (simp only: ev_def)
qed

lemma concrete_result:
  "simulate_decision lib g 100 (1 / 5) (1 / 2) 0 10 1 =
     Inr ((1, 1, 80 * (975 / 1000) ^ 10, 100 * (95 / 100) ^ 10),
          snd (drawn lib 100 (1 / 5) (1 / 2) 0 10 1))"
proof -
  have c: "(0::real) \<le> 1 / 10 * 100 * 0" "(0::int) \<le> 10" "(1::int) \<le> 1"
    by simp_all
  show ?thesis
    unfolding simulate_decision_Inr [OF c] concrete_outcome ..
qed

lemma next_cell_mono:
  assumes "sound c1" "sound c2" "fst c2 \<le> fst c1" "0 \<le> k \<or> nz = 0"
  shows "fst (next_cell k nz c2) \<le> fst (next_cell k nz c1)"
proof (cases "snd c2")
  case False
  then have "fst (next_cell k nz c2) = 0"
    using assms(2) by (simp add: next_cell_def sound_def)
  moreover have "0 \<le> fst (next_cell k nz c1)"
    using next_cell_sound [OF assms(1), of k nz] by (simp add: sound_def)
  ultimately show ?thesis
    by simp
next
  case True
  then have e2: "0 < fst c2"
    using assms(2) by (simp add: sound_def)
  then have e1: "0 < fst c1" and a1: "snd c1"
    using assms(1,3) by (simp_all add: sound_def)
  show ?thesis
  proof (cases "0 \<le> k")
    case k: True
    have "fst c2 * k \<le> fst c1 * k"
      using assms(3) k by (rule mult_right_mono)
    then show ?thesis
      using True a1 by (simp add: next_cell_def)
  next
    case k: False
    then have z: "nz = 0"
      using assms(4) by simp
    have "fst c1 * k < 0" "fst c2 * k < 0"
      using e1 e2 k by (simp_all add: mult_pos_neg)
    then show ?thesis
      using True a1 by (simp add: next_cell_def z)
  qed
qed

lemma cell_run_mono:
  assumes "sound c1" "sound c2" "fst c2 \<le> fst c1" "0 \<le> k \<or> (\<forall>t. nz t = 0)"
  shows "fst (cell_run k nz ts c2) \<le> fst (cell_run k nz ts c1)"
  using assms(1-3)
proof (induction ts arbitrary: c1 c2)
  case Nil
  then show ?case by simp
next
  case (Cons t ts)
  have "0 \<le> k \<or> nz t = 0"
    using assms(4) by blast
  with Cons.prems have "fst (next_cell k (nz t) c2) \<le> fst (next_cell k (nz t) c1)"
    by (intro next_cell_mono)
  with Cons.prems show ?case
    by (simp add: Cons.IH next_cell_sound)
qed

lemma metrics_mono:
  assumes "length xs = length ys" "\<And>i. i < length xs \<Longrightarrow> xs ! i \<le> ys ! i"
  shows "survival_of xs \<le> survival_of ys" "average_of xs \<le> average_of ys"
proof -
  have "sum_list xs \<le> sum_list ys"
    using assms by (intro sum_list_mono2) simp_all
  then show "average_of xs \<le> average_of ys"
    by (simp add: average_of_def assms(1) divide_right_mono)
  have "sum_list (map (\<lambda>x. if 0 < x then 1 else (0::real)) xs)
      \<le> sum_list (map (\<lambda>x. if 0 < x then 1 else 0) ys)"
  proof (rule sum_list_mono2)
    show "length (map (\<lambda>x. if 0 < x then 1 else (0::real)) xs) =
        length (map (\<lambda>x. if 0 < x then 1 else (0::real)) ys)"
      by (simp add: assms(1))
    fix i
    show "i < length (map (\<lambda>x. if 0 < x then 1 else (0::real)) xs) \<longrightarrow>
        map (\<lambda>x. if 0 < x then 1 else (0::real)) xs ! i \<le>
        map (\<lambda>x. if 0 < x then 1 else 0) ys ! i"
      using assms(2) [of i] assms(1) by auto
  qed
  then show "survival_of xs \<le> survival_of ys"
    by (simp add: survival_of_def assms(1) divide_right_mono)
qed

lemma run_mono:
  assumes n: "scenarios ev2 = scenarios ev1"
    and k: "decay_rate ev2 dec = decay_rate ev1 dec"
    and nz: "\<And>i. noise_at ev2 i = noise_at ev1 i"
    and ok: "0 \<le> 1 - decay_rate ev1 dec \<or> \<not> 0 < rand_std ev1"
    and snd1: "sound (start_cell ev1 dec)" and snd2: "sound (start_cell ev2 dec)"
    and le: "fst (start_cell ev2 dec) \<le> fst (start_cell ev1 dec)"
  shows "survival_of (E (state_after ev2 dec h)) \<le> survival_of (E (state_after ev1 dec h))"
    and "average_of (E (state_after ev2 dec h)) \<le> average_of (E (state_after ev1 dec h))"
proof -
  have len: "length (E (state_after ev2 dec h)) = scenarios ev1"
    "length (E (state_after ev1 dec h)) = scenarios ev1"
    using shape_state_after [of ev2 dec h] shape_state_after [of ev1 dec h]
    by (simp_all add: shape_def n)
  have pt: "E (state_after ev2 dec h) ! i \<le> E (state_after ev1 dec h) ! i"
    if "i < length (E (state_after ev2 dec h))" for i
  proof -
    have i: "i < scenarios ev1" "i < scenarios ev2"
      using that by (simp_all add: len n)
    have "0 \<le> 1 - decay_rate ev1 dec \<or> (\<forall>t. noise_at ev1 i t = 0)"
      using ok by (auto simp: noise_at_def)
    from cell_run_mono [OF snd1 snd2 le this]
    show ?thesis
      by (simp add: E_nth_cell cell_state_after i k nz)
  qed
  show "survival_of (E (state_after ev2 dec h)) \<le> survival_of (E (state_after ev1 dec h))"
    "average_of (E (state_after ev2 dec h)) \<le> average_of (E (state_after ev1 dec h))"
    using len pt by (intro metrics_mono; simp)+
qed

lemma state_after_single:
  assumes "scenarios ev = 1"
  shows "state_after ev dec k =
     \<lparr>E = [fst (cell_run (1 - decay_rate ev dec) (noise_at ev 0) [0..<k] (start_cell ev dec))],
      alive = [snd (cell_run (1 - decay_rate ev dec) (noise_at ev 0) [0..<k] (start_cell ev dec))]\<rparr>"
proof -
  have "shape 1 (state_after ev dec k)"
    using shape_state_after [of ev dec k] by (simp add: assms)
  moreover have "cell (state_after ev dec k) i =
      cell_run (1 - decay_rate ev dec) (noise_at ev 0) [0..<k] (start_cell ev dec)" if "i < 1" for i
    using that by (simp add: cell_state_after assms)
  ultimately have "state_after ev dec k =
     \<lparr>E = replicate 1 (fst (cell_run (1 - decay_rate ev dec) (noise_at ev 0) [0..<k] (start_cell ev dec))),
      alive = replicate 1 (snd (cell_run (1 - decay_rate ev dec) (noise_at ev 0) [0..<k] (start_cell ev dec)))\<rparr>"
    by (rule ensemble_uniform)
  then show ?thesis
    by simp
qed

lemma seeds_at:
  "derive_seed (stream_library sha256_at gauss_at) (100, 1 / 10, 0, 1, 1) = 910878918"
  "derive_seed (stream_library sha256_at gauss_at) (100, 1 / 5, 0, 1, 1) = 2555750145"
  by (simp_all add: derive_seed_def stream_library_def sha256_at_def)

lemma drawn_at:
  "drawn (stream_library sha256_at gauss_at) 100 (1 / 10) 0 1 1 1 =
     (\<lambda>i t. 10 * gauss_at 910878918 (i + t), 910878919)"
  "drawn (stream_library sha256_at gauss_at) 100 (1 / 5) 0 1 1 1 =
     (\<lambda>i t. 10 * gauss_at 2555750145 (i + t), 2555750146)"
  by (simp_all add: drawn_def seeds_at) (simp_all add: stream_library_def)

section \<open>The claims\<close>

subsection \<open>Shared noise\<close>

text \<open>
  C1. Shared noise. An invocation of \<open>simulate_decision\<close> that returns has made one
  call of \<open>np.random.normal\<close>, on the freshly seeded generator and before either run:
  the generator state it leaves behind is the state after that single call, and the
  returned quadruple is the outcome of the YES run and of the NO run over the one array
  \<open>rm\<close> of that call. In either run, a scenario \<open>i\<close> that is alive at step \<open>k\<close> has its
  energy multiplied by \<open>1 - decay_rate\<close> and then the same value added: the entry
  \<open>rm i k\<close> of that array when \<open>rand_std > 0\<close> (and nothing when \<open>rand_std = 0\<close>), before
  the clamp at 0.
\<close>

theorem shared_noise:
  assumes "simulate_decision lib g init_energy cost_frac benefit_frac risk_frac hor scen =
     Inr ((surv_yes, surv_no, avg_yes, avg_no), g')"
  shows "\<exists>rm.
     normal_draw lib
         (random_seed lib (derive_seed lib (init_energy, cost_frac, benefit_frac, risk_frac, hor)))
         0 (1 / 10 * init_energy * risk_frac) (nat scen) (nat hor) = (rm, g') \<and>
     generate_noise lib g init_energy cost_frac benefit_frac risk_frac hor scen = Inr (rm, g') \<and>
     run_scenarios (closure init_energy cost_frac benefit_frac risk_frac hor scen rm) True =
       Inr (surv_yes, avg_yes) \<and>
     run_scenarios (closure init_energy cost_frac benefit_frac risk_frac hor scen rm) False =
       Inr (surv_no, avg_no) \<and>
     (\<forall>dec k i. i < nat scen \<longrightarrow>
        alive (state_after (closure init_energy cost_frac benefit_frac risk_frac hor scen rm) dec k) ! i \<longrightarrow>
        E (state_after (closure init_energy cost_frac benefit_frac risk_frac hor scen rm) dec (Suc k)) ! i =
          (if E (state_after (closure init_energy cost_frac benefit_frac risk_frac hor scen rm) dec k) ! i *
                (1 - decay_rate (closure init_energy cost_frac benefit_frac risk_frac hor scen rm) dec) +
                (if 0 < 1 / 10 * init_energy * risk_frac then rm i k else 0) \<le> 0
           then 0
           else E (state_after (closure init_energy cost_frac benefit_frac risk_frac hor scen rm) dec k) ! i *
                (1 - decay_rate (closure init_energy cost_frac benefit_frac risk_frac hor scen rm) dec) +
                (if 0 < 1 / 10 * init_energy * risk_frac then rm i k else 0)))"
proof -
  have "\<exists>q g'. simulate_decision lib g init_energy cost_frac benefit_frac risk_frac hor scen = Inr (q, g')"
    using assms by blast
  then have ok: "0 \<le> 1 / 10 * init_energy * risk_frac \<and> 0 \<le> hor \<and> 1 \<le> scen"
    by (simp only: simulate_decision_Inr_iff)
  then have std: "0 \<le> 1 / 10 * init_energy * risk_frac" and h: "0 \<le> hor" and n: "1 \<le> scen"
    by simp_all
  obtain rm g2 where d: "drawn lib init_energy cost_frac benefit_frac risk_frac hor scen = (rm, g2)"
    by (cases "drawn lib init_energy cost_frac benefit_frac risk_frac hor scen")
  define ev where "ev = closure init_energy cost_frac benefit_frac risk_frac hor scen rm"
  have res: "outcome ev = (surv_yes, surv_no, avg_yes, avg_no)" "g' = g2"
    using assms unfolding simulate_decision_Inr [OF std h n] d ev_def by simp_all
  have p1: "normal_draw lib
         (random_seed lib (derive_seed lib (init_energy, cost_frac, benefit_frac, risk_frac, hor)))
         0 (1 / 10 * init_energy * risk_frac) (nat scen) (nat hor) = (rm, g')"
    using d by (simp add: drawn_def res)
  have p2: "generate_noise lib g init_energy cost_frac benefit_frac risk_frac hor scen = Inr (rm, g')"
    using n by (simp add: generate_noise_Inr [OF std h] d res)
  have pos: "0 < scenarios ev"
    using n by (simp add: ev_def)
  have p3: "run_scenarios ev True = Inr (surv_yes, avg_yes)"
    "run_scenarios ev False = Inr (surv_no, avg_no)"
    using res(1) by (simp_all add: run_scenarios_Inr [OF pos] outcome_def)
  have p4: "E (state_after ev dec (Suc k)) ! i =
      (if E (state_after ev dec k) ! i * (1 - decay_rate ev dec) +
            (if 0 < 1 / 10 * init_energy * risk_frac then rm i k else 0) \<le> 0
       then 0
       else E (state_after ev dec k) ! i * (1 - decay_rate ev dec) +
            (if 0 < 1 / 10 * init_energy * risk_frac then rm i k else 0))"
    if "i < nat scen" "alive (state_after ev dec k) ! i" for dec k i
  proof -
    have i: "i < scenarios ev"
      using that(1) by (simp add: ev_def)
    have nz: "noise_at ev i k = (if 0 < 1 / 10 * init_energy * risk_frac then rm i k else 0)"
      by (simp add: noise_at_def ev_def closure_def)
    show ?thesis
      unfolding E_state_after_Suc [OF i that(2)] nz ..
  qed
  from p1 p2 p3 p4 show ?thesis
    unfolding ev_def by blast
qed

theorem shared_noise_witness:
  "\<exists>rm surv_yes surv_no avg_yes avg_no.
     generate_noise (stream_library (\<lambda>key. 2 ^ 32 + 7) (\<lambda>seed n. if even n then - 12 else 3))
         99 100 (1 / 5) (1 / 2) 1 3 2 = Inr (rm, 13) \<and>
     run_scenarios (closure 100 (1 / 5) (1 / 2) 1 3 2 rm) True = Inr (surv_yes, avg_yes) \<and>
     run_scenarios (closure 100 (1 / 5) (1 / 2) 1 3 2 rm) False = Inr (surv_no, avg_no)"
proof -
  define L where "L = stream_library (\<lambda>key. 2 ^ 32 + 7) (\<lambda>seed n. if even n then - 12 else (3::real))"
  have c: "(0::real) \<le> 1 / 10 * 100 * 1" "(0::int) \<le> 3" "(1::int) \<le> 2"
    by simp_all
  have g: "snd (drawn L 100 (1 / 5) (1 / 2) 1 3 2) = 13"
    by (simp add: drawn_def L_def stream_library_def derive_seed_def)
  obtain surv_yes surv_no avg_yes avg_no where
    "outcome (closure 100 (1 / 5) (1 / 2) 1 3 2 (fst (drawn L 100 (1 / 5) (1 / 2) 1 3 2))) =
       (surv_yes, surv_no, avg_yes, avg_no)"
    using prod_cases4 by blast
  then have "simulate_decision L 99 100 (1 / 5) (1 / 2) 1 3 2 =
      Inr ((surv_yes, surv_no, avg_yes, avg_no), 13)"
    using simulate_decision_Inr [OF c, of L 99 "1 / 5" "1 / 2"] by (simp only: g)
  from shared_noise [OF this] show ?thesis
    unfolding L_def by blast
qed

subsection \<open>Determinism\<close>

text \<open>
  C2. \<open>simulate_decision\<close> is deterministic. Whatever state the global generator is in
  when the call is made, the call reseeds it with a seed below \<open>2 ^ 32\<close> that depends on
  \<open>(initial_energy, cost_frac, benefit_frac, risk_frac, horizon)\<close> alone, so two
  invocations with the same arguments draw the same noise array and have the same
  outcome; for \<open>initial_energy > 0\<close>, \<open>horizon \<ge> 0\<close>, \<open>scenarios \<ge> 1\<close> (and a
  \<open>risk_frac\<close> that is not negative) that outcome is a returned quadruple.
\<close>

theorem deterministic:
  "simulate_decision lib g1 init_energy cost_frac benefit_frac risk_frac hor scen =
     simulate_decision lib g2 init_energy cost_frac benefit_frac risk_frac hor scen \<and>
   generate_noise lib g1 init_energy cost_frac benefit_frac risk_frac hor scen =
     generate_noise lib g2 init_energy cost_frac benefit_frac risk_frac hor scen \<and>
   derive_seed lib (init_energy, cost_frac, benefit_frac, risk_frac, hor) < 2 ^ 32 \<and>
   (0 < init_energy \<and> 0 \<le> hor \<and> 1 \<le> scen \<and> 0 \<le> risk_frac \<longrightarrow>
      (\<exists>q g'.
         simulate_decision lib g1 init_energy cost_frac benefit_frac risk_frac hor scen = Inr (q, g') \<and>
         simulate_decision lib g2 init_energy cost_frac benefit_frac risk_frac hor scen = Inr (q, g')))"
proof -
  have gen: "generate_noise lib g1 init_energy cost_frac benefit_frac risk_frac hor scen =
      generate_noise lib g2 init_energy cost_frac benefit_frac risk_frac hor scen"
    by (simp add: generate_noise_def np_random_seed_def)
  then have sim: "simulate_decision lib g1 init_energy cost_frac benefit_frac risk_frac hor scen =
      simulate_decision lib g2 init_energy cost_frac benefit_frac risk_frac hor scen"
    by (simp add: simulate_decision_def)
  have seed: "derive_seed lib (init_energy, cost_frac, benefit_frac, risk_frac, hor) < 2 ^ 32"
    by (simp add: derive_seed_def)
  have "\<exists>q g'. simulate_decision lib g1 init_energy cost_frac benefit_frac risk_frac hor scen = Inr (q, g')"
    if "0 < init_energy" "0 \<le> hor" "1 \<le> scen" "0 \<le> risk_frac"
  proof -
    from that have "0 \<le> 1 / 10 * init_energy * risk_frac \<and> 0 \<le> hor \<and> 1 \<le> scen"
      by simp
    then show ?thesis
      by (rule simulate_decision_Inr_iff [THEN iffD2])
  qed
  with gen sim seed show ?thesis
    by auto
qed

theorem deterministic_witness:
  "\<exists>q g'.
     simulate_decision (stream_library (\<lambda>key. 2 ^ 32 + 7) (\<lambda>seed n. if even n then - 12 else 3))
         0 100 (1 / 5) (1 / 2) 1 3 2 = Inr (q, g') \<and>
     simulate_decision (stream_library (\<lambda>key. 2 ^ 32 + 7) (\<lambda>seed n. if even n then - 12 else 3))
         99 100 (1 / 5) (1 / 2) 1 3 2 = Inr (q, g')"
proof -
  have h: "(0::real) < 100 \<and> (0::int) \<le> 3 \<and> (1::int) \<le> 2 \<and> (0::real) \<le> 1"
    by simp
  from deterministic [of "stream_library (\<lambda>key. 2 ^ 32 + 7) (\<lambda>seed n. if even n then - 12 else 3)"
      0 100 "1 / 5" "1 / 2" 1 3 2 99] h
  show ?thesis
    by blast
qed

subsection \<open>The decision rule\<close>

text \<open>
  C3. Whatever quadruple the engine returns, the decision rule of the callers answers
  YES or NO and nothing else, through exactly three branches: YES when
  \<open>surv_yes - surv_no > 0.01\<close>; otherwise NO when \<open>surv_no - surv_yes > 0.01\<close>;
  otherwise YES when \<open>avg_yes \<ge> avg_no\<close> and NO when not.
\<close>

theorem decision_three_branches:
  "(surv_yes - surv_no > 1 / 100 \<longrightarrow> decision surv_yes surv_no avg_yes avg_no = ''YES'') \<and>
   (\<not> surv_yes - surv_no > 1 / 100 \<and> surv_no - surv_yes > 1 / 100 \<longrightarrow>
      decision surv_yes surv_no avg_yes avg_no = ''NO'') \<and>
   (\<not> surv_yes - surv_no > 1 / 100 \<and> \<not> surv_no - surv_yes > 1 / 100 \<and> avg_yes \<ge> avg_no \<longrightarrow>
      decision surv_yes surv_no avg_yes avg_no = ''YES'') \<and>
   (\<not> surv_yes - surv_no > 1 / 100 \<and> \<not> surv_no - surv_yes > 1 / 100 \<and> \<not> avg_yes \<ge> avg_no \<longrightarrow>
      decision surv_yes surv_no avg_yes avg_no = ''NO'') \<and>
   decision surv_yes surv_no avg_yes avg_no \<in> {''YES'', ''NO''}"
  by (simp add: decision_def)

theorem decision_three_branches_witness:
  "decision (9 / 10) (1 / 2) 0 50 = ''YES'' \<and>
   decision (1 / 2) (9 / 10) 50 0 = ''NO'' \<and>
   decision 1 1 62 59 = ''YES'' \<and>
   decision 1 (995 / 1000) 59 62 = ''NO''"
  using decision_three_branches [of "9 / 10" "1 / 2" 0 50]
    decision_three_branches [of "1 / 2" "9 / 10" 50 0]
    decision_three_branches [of 1 1 62 59]
    decision_three_branches [of 1 "995 / 1000" 59 62]
  by simp

subsection \<open>Monotonicity in the cost\<close>

text \<open>
  C4 (amended). For \<open>initial_energy > 0\<close>, \<open>horizon \<ge> 0\<close>, \<open>scenarios \<ge> 1\<close>, fixed
  \<open>benefit_frac\<close> and \<open>risk_frac = 0\<close>, and \<open>cost_frac_1 \<le> cost_frac_2\<close>: both
  invocations return, and the \<open>survival_yes\<close> and \<open>avg_yes\<close> returned with \<open>cost_frac_2\<close>
  are at most those returned with \<open>cost_frac_1\<close>. With \<open>risk_frac > 0\<close> the two
  invocations are seeded from keys that differ in \<open>cost_frac\<close> and read different noise:
  \<open>simulate_decision(100.0, 0.1, 0.0, 1.0, 1, 1)\<close> returns \<open>avg_yes\<close> about 90.02 and
  \<open>simulate_decision(100.0, 0.2, 0.0, 1.0, 1, 1)\<close> returns \<open>avg_yes\<close> about 97.62.
\<close>

theorem cost_monotone:
  assumes "0 < init_energy" "0 \<le> hor" "1 \<le> scen" "cost_frac1 \<le> cost_frac2"
  shows "\<exists>surv_yes1 surv_no1 avg_yes1 avg_no1 g1 surv_yes2 surv_no2 avg_yes2 avg_no2 g2.
     simulate_decision lib ga init_energy cost_frac1 benefit_frac 0 hor scen =
       Inr ((surv_yes1, surv_no1, avg_yes1, avg_no1), g1) \<and>
     simulate_decision lib gb init_energy cost_frac2 benefit_frac 0 hor scen =
       Inr ((surv_yes2, surv_no2, avg_yes2, avg_no2), g2) \<and>
     surv_yes2 \<le> surv_yes1 \<and> avg_yes2 \<le> avg_yes1"
proof -
  define rm1 where "rm1 = fst (drawn lib init_energy cost_frac1 benefit_frac 0 hor scen)"
  define rm2 where "rm2 = fst (drawn lib init_energy cost_frac2 benefit_frac 0 hor scen)"
  define ev1 where "ev1 = closure init_energy cost_frac1 benefit_frac 0 hor scen rm1"
  define ev2 where "ev2 = closure init_energy cost_frac2 benefit_frac 0 hor scen rm2"
  have std: "0 \<le> 1 / 10 * init_energy * (0::real)"
    by simp
  have n: "scenarios ev2 = scenarios ev1"
    by (simp add: ev1_def ev2_def)
  have k: "decay_rate ev2 True = decay_rate ev1 True"
    by (simp add: ev1_def ev2_def decay_rate_closure)
  have quiet: "\<not> 0 < rand_std ev1" "\<not> 0 < rand_std ev2"
    by (simp_all add: ev1_def ev2_def)
  have nz: "noise_at ev2 i = noise_at ev1 i" for i
    by (simp add: noise_at_quiet quiet)
  have ok: "0 \<le> 1 - decay_rate ev1 True \<or> \<not> 0 < rand_std ev1"
    using quiet(1) by simp
  have snd1: "sound (start_cell ev1 True)" and snd2: "sound (start_cell ev2 True)"
    by (simp_all add: start_cell_sound)
  have "init_energy * cost_frac1 \<le> init_energy * cost_frac2"
    using assms(1,4) by (simp add: mult_left_mono)
  then have le: "fst (start_cell ev2 True) \<le> fst (start_cell ev1 True)"
    by (simp add: ev1_def ev2_def start_cell_closure)
  have hz: "horizon ev2 = horizon ev1"
    by (simp add: ev1_def ev2_def)
  from run_mono [OF n k nz ok snd1 snd2 le, of "horizon ev1"]
  have "fst (outcome ev2) \<le> fst (outcome ev1)"
    "fst (snd (snd (outcome ev2))) \<le> fst (snd (snd (outcome ev1)))"
    by (simp_all add: outcome_def hz)
  then show ?thesis
    unfolding simulate_decision_Inr [OF std assms(2,3)] ev1_def ev2_def rm1_def rm2_def
    by (metis prod.collapse)
qed

theorem cost_monotone_witness:
  "\<exists>surv_yes1 surv_no1 avg_yes1 avg_no1 g1 surv_yes2 surv_no2 avg_yes2 avg_no2 g2.
     simulate_decision (stream_library sha256_at gauss_at) 0 100 (1 / 10) (1 / 2) 0 10 1000 =
       Inr ((surv_yes1, surv_no1, avg_yes1, avg_no1), g1) \<and>
     simulate_decision (stream_library sha256_at gauss_at) 5 100 (1 / 5) (1 / 2) 0 10 1000 =
       Inr ((surv_yes2, surv_no2, avg_yes2, avg_no2), g2) \<and>
     surv_yes2 \<le> surv_yes1 \<and> avg_yes2 \<le> avg_yes1"
proof -
  have h: "(0::real) < 100" "(0::int) \<le> 10" "(1::int) \<le> 1000" "(1::real) / 10 \<le> 1 / 5"
    by simp_all
  from cost_monotone [OF h, of "stream_library sha256_at gauss_at" 0 "1 / 2" 5] show ?thesis .
qed

theorem cost_monotone_fails_with_noise:
  "simulate_decision (stream_library sha256_at gauss_at) 0 100 (1 / 10) 0 1 1 1 =
     Inr ((1, 1, 171 / 2 + 10 * (1017849902290465 / 2 ^ 51),
                 95 + 10 * (1017849902290465 / 2 ^ 51)), 910878919) \<and>
   simulate_decision (stream_library sha256_at gauss_at) 0 100 (1 / 5) 0 1 1 1 =
     Inr ((1, 1, 76 + 10 * (2434504090464367 / 2 ^ 50),
                 95 + 10 * (2434504090464367 / 2 ^ 50)), 2555750146) \<and>
   (1 / 10 :: real) \<le> 1 / 5 \<and>
   \<bar>171 / 2 + 10 * (1017849902290465 / 2 ^ 51) - 900202 / 10000\<bar> \<le> (1 / 10000 :: real) \<and>
   \<bar>76 + 10 * (2434504090464367 / 2 ^ 50) - 976227 / 10000\<bar> \<le> (1 / 10000 :: real) \<and>
   \<not> (76 + 10 * (2434504090464367 / 2 ^ 50) \<le> (171 / 2 + 10 * (1017849902290465 / 2 ^ 51) :: real))"
proof -
  define L where "L = stream_library sha256_at gauss_at"
  have c: "(0::real) \<le> 1 / 10 * 100 * 1" "(0::int) \<le> 1" "(1::int) \<le> 1"
    by simp_all
  have n: "scenarios (closure 100 cf 0 1 1 1 rm) = 1" "horizon (closure 100 cf 0 1 1 1 rm) = 1" for cf rm
    by simp_all
  have up: "[0..<1] = [0::nat]"
    by simp
  have o1: "outcome (closure 100 (1 / 10) 0 1 1 1 (\<lambda>i t. 10 * gauss_at 910878918 (i + t))) =
      (1, 1, 171 / 2 + 10 * (1017849902290465 / 2 ^ 51), 95 + 10 * (1017849902290465 / 2 ^ 51))"
    unfolding outcome_def n state_after_single [OF n(1)] up
    by (simp add: decay_rate_def start_cell_def noise_at_def next_cell_def
        survival_of_def average_of_def closure_def gauss_at_def)
  have o2: "outcome (closure 100 (1 / 5) 0 1 1 1 (\<lambda>i t. 10 * gauss_at 2555750145 (i + t))) =
      (1, 1, 76 + 10 * (2434504090464367 / 2 ^ 50), 95 + 10 * (2434504090464367 / 2 ^ 50))"
    unfolding outcome_def n state_after_single [OF n(1)] up
    by (simp add: decay_rate_def start_cell_def noise_at_def next_cell_def
        survival_of_def average_of_def closure_def gauss_at_def)
  have "simulate_decision L 0 100 (1 / 10) 0 1 1 1 =
     Inr ((1, 1, 171 / 2 + 10 * (1017849902290465 / 2 ^ 51),
                 95 + 10 * (1017849902290465 / 2 ^ 51)), 910878919)"
    unfolding simulate_decision_Inr [OF c] L_def drawn_at by (simp only: fst_conv snd_conv o1)
  moreover have "simulate_decision L 0 100 (1 / 5) 0 1 1 1 =
     Inr ((1, 1, 76 + 10 * (2434504090464367 / 2 ^ 50),
                 95 + 10 * (2434504090464367 / 2 ^ 50)), 2555750146)"
    unfolding simulate_decision_Inr [OF c] L_def drawn_at by (simp only: fst_conv snd_conv o2)
  moreover have
    "\<bar>171 / 2 + 10 * (1017849902290465 / 2 ^ 51) - 900202 / 10000\<bar> \<le> (1 / 10000 :: real)"
    "\<bar>76 + 10 * (2434504090464367 / 2 ^ 50) - 976227 / 10000\<bar> \<le> (1 / 10000 :: real)"
    "\<not> (76 + 10 * (2434504090464367 / 2 ^ 50) \<le> (171 / 2 + 10 * (1017849902290465 / 2 ^ 51) :: real))"
    by simp_all
  ultimately show ?thesis
    unfolding L_def by simp
qed

subsection \<open>Immediate death\<close>

text \<open>
  C5 (amended). For \<open>initial_energy > 0\<close>, \<open>horizon \<ge> 0\<close>, \<open>scenarios \<ge> 1\<close>, any
  \<open>benefit_frac\<close> and any \<open>risk_frac \<ge> 0\<close>: with \<open>cost_frac = 1\<close> the engine returns
  \<open>survival_yes = 0\<close> and \<open>avg_yes = 0\<close>. Whatever the noise array, the upfront cost
  leaves every scenario of the YES run dead with energy 0 before the first step, the
  loop finds nothing alive, and the arrays stay as they are for every number of steps.
\<close>

theorem immediate_death:
  assumes "0 < init_energy" "0 \<le> hor" "1 \<le> scen" "0 \<le> risk_frac"
  shows "\<exists>surv_no avg_no g'.
     simulate_decision lib g init_energy 1 benefit_frac risk_frac hor scen =
       Inr ((0, surv_no, 0, avg_no), g') \<and>
     (\<forall>rm k.
        start (closure init_energy 1 benefit_frac risk_frac hor scen rm) True =
          \<lparr>E = replicate (nat scen) 0, alive = replicate (nat scen) False\<rparr> \<and>
        \<not> np_any (alive (start (closure init_energy 1 benefit_frac risk_frac hor scen rm) True)) \<and>
        state_after (closure init_energy 1 benefit_frac risk_frac hor scen rm) True k =
          start (closure init_energy 1 benefit_frac risk_frac hor scen rm) True)"
proof -
  define ev where "ev = closure init_energy 1 benefit_frac risk_frac hor scen"
  have std: "0 \<le> 1 / 10 * init_energy * risk_frac"
    using assms(1,4) by simp
  have n: "scenarios (ev rm) = nat scen" "0 < nat scen" for rm
    using assms(3) by (simp_all add: ev_def)
  have c: "start_cell (ev rm) True = (0, False)" for rm
    by (simp add: ev_def start_cell_closure)
  have sa: "state_after (ev rm) True k = \<lparr>E = replicate (nat scen) 0, alive = replicate (nat scen) False\<rparr>"
    for rm k
    using state_after_dead_start [of "ev rm" True k] by (simp add: c n)
  have st: "start (ev rm) True = \<lparr>E = replicate (nat scen) 0, alive = replicate (nat scen) False\<rparr>"
    for rm
    using sa [of rm 0] by (simp add: state_after_0)
  have quiet: "\<not> np_any (alive (start (ev rm) True))" for rm
    by (simp add: st np_any_iff)
  show ?thesis
    unfolding simulate_decision_Inr [OF std assms(2,3)] outcome_def ev_def [symmetric]
    using st quiet n(2) by (simp add: sa survival_of_replicate average_of_replicate)
qed

theorem immediate_death_witness:
  "\<exists>surv_no avg_no g'.
     simulate_decision (stream_library (\<lambda>key. 7) (\<lambda>seed n. if even n then - 12 else 3))
         0 100 1 (1 / 2) (3 / 10) 50 1000 =
       Inr ((0, surv_no, 0, avg_no), g')"
proof -
  have h: "(0::real) < 100" "(0::int) \<le> 50" "(1::int) \<le> 1000" "(0::real) \<le> 3 / 10"
    by simp_all
  from immediate_death [OF h, of "stream_library (\<lambda>key. 7) (\<lambda>seed n. if even n then - 12 else 3)" 0 "1 / 2"]
  show ?thesis
    by blast
qed

theorem immediate_death_negative_risk:
  "simulate_decision (stream_library (\<lambda>key. 7) (\<lambda>seed n. if even n then - 12 else 3))
       0 100 1 (1 / 2) (- 1) 50 1000 = Inl ValueError \<and>
   \<not> (\<exists>surv_no avg_no g'.
     simulate_decision (stream_library (\<lambda>key. 7) (\<lambda>seed n. if even n then - 12 else 3))
         0 100 1 (1 / 2) (- 1) 50 1000 =
       Inr ((0, surv_no, 0, avg_no), g'))"
proof -
  have "(1::real) / 10 * 100 * - 1 < 0 \<or> (50::int) < 0 \<or> (1000::int) < 0"
    by simp
  then have "simulate_decision (stream_library (\<lambda>key. 7) (\<lambda>seed n. if even n then - 12 else 3))
       0 100 1 (1 / 2) (- 1) 50 1000 = Inl ValueError"
    by (rule simulate_decision_ValueError)
  then show ?thesis
    by simp
qed

subsection \<open>Zero horizon\<close>

text \<open>
  C6 (amended). For \<open>initial_energy > 0\<close>, \<open>scenarios \<ge> 1\<close> and \<open>risk_frac \<ge> 0\<close>: with
  \<open>horizon = 0\<close> the arrays of either run at the end of \<open>run_scenarios\<close> are the ones
  the loop started with (no decay or noise step runs), and the engine returns
  \<open>survival_no = 1\<close>, \<open>avg_no = initial_energy\<close>, while \<open>survival_yes\<close> and \<open>avg_yes\<close>
  come from the upfront cost alone: with \<open>e = initial_energy - initial_energy * cost_frac\<close>
  they are 1 and \<open>e\<close> when \<open>e > 0\<close>, and 0 and 0 when \<open>e \<le> 0\<close>.
\<close>

theorem zero_horizon:
  assumes "0 < init_energy" "1 \<le> scen" "0 \<le> risk_frac"
  shows "\<exists>g'.
     simulate_decision lib g init_energy cost_frac benefit_frac risk_frac 0 scen =
       Inr ((if 0 < init_energy - init_energy * cost_frac then 1 else 0,
             1,
             if 0 < init_energy - init_energy * cost_frac
             then init_energy - init_energy * cost_frac else 0,
             init_energy), g') \<and>
     (\<forall>rm dec.
        state_after (closure init_energy cost_frac benefit_frac risk_frac 0 scen rm) dec
            (horizon (closure init_energy cost_frac benefit_frac risk_frac 0 scen rm)) =
          start (closure init_energy cost_frac benefit_frac risk_frac 0 scen rm) dec)"
proof -
  define ev where "ev = closure init_energy cost_frac benefit_frac risk_frac 0 scen"
  have std: "0 \<le> 1 / 10 * init_energy * risk_frac"
    using assms(1,3) by simp
  have n: "scenarios (ev rm) = nat scen" "0 < nat scen" "horizon (ev rm) = 0" for rm
    using assms(2) by (simp_all add: ev_def)
  have fin: "state_after (ev rm) dec (horizon (ev rm)) = start (ev rm) dec" for rm dec
    by (simp add: n state_after_0)
  have yes: "start (ev rm) True =
      \<lparr>E = replicate (nat scen)
             (if 0 < init_energy - init_energy * cost_frac
              then init_energy - init_energy * cost_frac else 0),
       alive = replicate (nat scen) (0 < init_energy - init_energy * cost_frac)\<rparr>" for rm
    by (simp add: start_uniform [of "ev rm" True] n) (simp add: ev_def start_cell_closure not_less)
  have no: "start (ev rm) False =
      \<lparr>E = replicate (nat scen) init_energy, alive = replicate (nat scen) True\<rparr>" for rm
    by (simp add: start_uniform [of "ev rm" False] n) (simp add: ev_def start_cell_closure)
  have zero: "(0::int) \<le> 0"
    by simp
  show ?thesis
    unfolding simulate_decision_Inr [OF std zero assms(2)] outcome_def ev_def [symmetric] fin
    using n(2) assms(1) by (simp add: yes no survival_of_replicate average_of_replicate)
qed

theorem zero_horizon_witness:
  "\<exists>g'.
     simulate_decision (stream_library (\<lambda>key. 7) (\<lambda>seed n. if even n then - 12 else 3))
         0 100 (1 / 5) (1 / 2) (3 / 10) 0 1000 =
       Inr ((1, 1, 80, 100), g')"
proof -
  have h: "(0::real) < 100" "(1::int) \<le> 1000" "(0::real) \<le> 3 / 10"
    by simp_all
  from zero_horizon [OF h, of "stream_library (\<lambda>key. 7) (\<lambda>seed n. if even n then - 12 else 3)" 0 "1 / 5" "1 / 2"]
  show ?thesis
    by simp
qed

theorem zero_horizon_negative_risk:
  "simulate_decision (stream_library (\<lambda>key. 7) (\<lambda>seed n. if even n then - 12 else 3))
       0 100 (1 / 5) (1 / 2) (- 1 / 2) 0 1000 = Inl ValueError \<and>
   \<not> (\<exists>surv_yes avg_yes g'.
     simulate_decision (stream_library (\<lambda>key. 7) (\<lambda>seed n. if even n then - 12 else 3))
         0 100 (1 / 5) (1 / 2) (- 1 / 2) 0 1000 =
       Inr ((surv_yes, 1, avg_yes, 100), g'))"
proof -
  have "(1::real) / 10 * 100 * (- 1 / 2) < 0 \<or> (0::int) < 0 \<or> (1000::int) < 0"
    by simp
  then have "simulate_decision (stream_library (\<lambda>key. 7) (\<lambda>seed n. if even n then - 12 else 3))
       0 100 (1 / 5) (1 / 2) (- 1 / 2) 0 1000 = Inl ValueError"
    by (rule simulate_decision_ValueError)
  then show ?thesis
    by simp
qed

subsection \<open>Zero risk\<close>

text \<open>
  C7. For \<open>initial_energy > 0\<close>, \<open>horizon \<ge> 0\<close>, \<open>scenarios \<ge> 1\<close> and any \<open>cost_frac\<close>
  and \<open>benefit_frac\<close>: with \<open>risk_frac = 0\<close> the standard deviation \<open>rand_std\<close> is 0; a
  step adds no noise (an alive scenario goes from energy \<open>e\<close> to \<open>e * (1 - decay_rate)\<close>,
  clamped to 0 when that is not positive, and the arrays do not depend on the noise
  array); after any number of steps all scenarios of a run have the same energy and the
  same flag; and the engine returns with \<open>survival_yes\<close> and \<open>survival_no\<close> each exactly
  0 or exactly 1.
\<close>

theorem zero_risk:
  assumes "0 < init_energy" "0 \<le> hor" "1 \<le> scen"
  shows "rand_std (closure init_energy cost_frac benefit_frac 0 hor scen rm) = 0 \<and>
     (\<forall>dec k i. i < nat scen \<longrightarrow>
        alive (state_after (closure init_energy cost_frac benefit_frac 0 hor scen rm) dec k) ! i \<longrightarrow>
        E (state_after (closure init_energy cost_frac benefit_frac 0 hor scen rm) dec (Suc k)) ! i =
          (if E (state_after (closure init_energy cost_frac benefit_frac 0 hor scen rm) dec k) ! i *
                (1 - decay_rate (closure init_energy cost_frac benefit_frac 0 hor scen rm) dec) \<le> 0
           then 0
           else E (state_after (closure init_energy cost_frac benefit_frac 0 hor scen rm) dec k) ! i *
                (1 - decay_rate (closure init_energy cost_frac benefit_frac 0 hor scen rm) dec))) \<and>
     (\<forall>rm' dec k.
        state_after (closure init_energy cost_frac benefit_frac 0 hor scen rm') dec k =
        state_after (closure init_energy cost_frac benefit_frac 0 hor scen rm) dec k) \<and>
     (\<forall>dec k. \<exists>e a.
        state_after (closure init_energy cost_frac benefit_frac 0 hor scen rm) dec k =
          \<lparr>E = replicate (nat scen) e, alive = replicate (nat scen) a\<rparr>) \<and>
     (\<exists>surv_yes surv_no avg_yes avg_no g'.
        simulate_decision lib g init_energy cost_frac benefit_frac 0 hor scen =
          Inr ((surv_yes, surv_no, avg_yes, avg_no), g') \<and>
        (surv_yes = 0 \<or> surv_yes = 1) \<and> (surv_no = 0 \<or> surv_no = 1))"
proof -
  define ev where "ev = closure init_energy cost_frac benefit_frac 0 hor scen"
  have quiet: "\<not> 0 < rand_std (ev m)" for m
    by (simp add: ev_def)
  have n: "scenarios (ev m) = nat scen" "0 < nat scen" for m
    using assms(3) by (simp_all add: ev_def)
  have same: "decay_rate (ev m) dec = decay_rate (ev rm) dec"
    "start_cell (ev m) dec = start_cell (ev rm) dec" for m dec
    by (simp_all add: ev_def decay_rate_closure start_cell_closure)
  have uni: "state_after (ev m) dec k =
       \<lparr>E = replicate (nat scen)
              (fst (cell_run (1 - decay_rate (ev rm) dec) (\<lambda>t. 0) [0..<k] (start_cell (ev rm) dec))),
        alive = replicate (nat scen)
              (snd (cell_run (1 - decay_rate (ev rm) dec) (\<lambda>t. 0) [0..<k] (start_cell (ev rm) dec)))\<rparr>"
    for m dec k
    using state_after_quiet [OF quiet, of m dec k] unfolding same [of m dec] by (simp add: n)
  have p1: "rand_std (ev rm) = 0"
    by (simp add: ev_def)
  have p2: "E (state_after (ev rm) dec (Suc k)) ! i =
      (if E (state_after (ev rm) dec k) ! i * (1 - decay_rate (ev rm) dec) \<le> 0 then 0
       else E (state_after (ev rm) dec k) ! i * (1 - decay_rate (ev rm) dec))"
    if "i < nat scen" "alive (state_after (ev rm) dec k) ! i" for dec k i
  proof -
    have "i < scenarios (ev rm)"
      using that(1) by (simp add: n)
    from E_state_after_Suc [OF this that(2)] show ?thesis
      by (simp add: noise_at_quiet [OF quiet])
  qed
  have p3: "state_after (ev rm') dec k = state_after (ev rm) dec k" for rm' dec k
    by (simp add: uni)
  have p4: "\<exists>e a. state_after (ev rm) dec k =
      \<lparr>E = replicate (nat scen) e, alive = replicate (nat scen) a\<rparr>" for dec k
    using uni [of rm dec k] by blast
  have std: "0 \<le> 1 / 10 * init_energy * (0::real)"
    by simp
  have p5: "\<exists>surv_yes surv_no avg_yes avg_no g'.
        simulate_decision lib g init_energy cost_frac benefit_frac 0 hor scen =
          Inr ((surv_yes, surv_no, avg_yes, avg_no), g') \<and>
        (surv_yes = 0 \<or> surv_yes = 1) \<and> (surv_no = 0 \<or> surv_no = 1)"
    unfolding simulate_decision_Inr [OF std assms(2,3)] outcome_def ev_def [symmetric]
    using n(2) by (simp add: uni survival_of_replicate)
  from p1 p2 p3 p4 p5 show ?thesis
    unfolding ev_def by blast
qed

theorem zero_risk_witness:
  "\<exists>surv_yes surv_no avg_yes avg_no g'.
        simulate_decision (stream_library (\<lambda>key. 7) (\<lambda>seed n. if even n then - 12 else 3))
            0 100 (1 / 5) (1 / 2) 0 10 3 =
          Inr ((surv_yes, surv_no, avg_yes, avg_no), g') \<and>
        (surv_yes = 0 \<or> surv_yes = 1) \<and> (surv_no = 0 \<or> surv_no = 1)"
proof -
  have h: "(0::real) < 100" "(0::int) \<le> 10" "(1::int) \<le> 3"
    by simp_all
  from zero_risk [OF h, of "1 / 5" "1 / 2" "\<lambda>i t. 0" "stream_library (\<lambda>key. 7) (\<lambda>seed n. if even n then - 12 else 3)" 0]
  show ?thesis
    by blast
qed

subsection \<open>Death is absorbing\<close>

text \<open>
  C8. Death is absorbing. If scenario \<open>i\<close> is dead when the loop of a run has gone
  through \<open>j\<close> steps, its energy is exactly 0 there, and after any later number
  \<open>k\<close> of steps it is still dead with energy exactly 0; one more pass through the loop
  body, at any step and with any decay rate, leaves its energy and its flag as they are.
\<close>

theorem death_is_absorbing:
  assumes "i < scenarios ev" "j \<le> k" "\<not> alive (state_after ev dec j) ! i"
  shows "E (state_after ev dec j) ! i = 0 \<and>
         E (state_after ev dec k) ! i = 0 \<and>
         \<not> alive (state_after ev dec k) ! i \<and>
         E (step ev rate t (state_after ev dec j)) ! i = 0 \<and>
         \<not> alive (step ev rate t (state_after ev dec j)) ! i"
proof -
  have dead: "\<not> snd (cell (state_after ev dec j) i)"
    using assms(3) by (simp add: alive_nth_cell)
  with state_after_settled [OF assms(1), of dec j]
  have zero: "fst (cell (state_after ev dec j) i) = 0"
    by (simp add: settled_def)
  have "cell (state_after ev dec k) i = cell (state_after ev dec j) i"
    using dead by (simp add: cell_state_after_split [OF assms(1,2)] cell_run_dead)
  moreover have "cell (step ev rate t (state_after ev dec j)) i = cell (state_after ev dec j) i"
    using dead by (simp add: cell_step [OF shape_state_after assms(1)] next_cell_dead)
  ultimately show ?thesis
    using dead zero by (simp add: alive_nth_cell E_nth_cell)
qed

theorem death_is_absorbing_witness:
  "\<not> alive (state_after (closure 100 0 0 1 3 2 (\<lambda>i t. if i = 0 then - 200 else 5)) False 1) ! 0 \<and>
   alive (state_after (closure 100 0 0 1 3 2 (\<lambda>i t. if i = 0 then - 200 else 5)) False 1) ! 1 \<and>
   E (state_after (closure 100 0 0 1 3 2 (\<lambda>i t. if i = 0 then - 200 else 5)) False 3) ! 0 = 0 \<and>
   \<not> alive (state_after (closure 100 0 0 1 3 2 (\<lambda>i t. if i = 0 then - 200 else 5)) False 3) ! 0"
proof -
  define ev where "ev = closure 100 0 0 1 3 2 (\<lambda>i t. if i = 0 then - 200 else 5)"
  have n: "scenarios ev = 2"
    by (simp add: ev_def)
  have c0: "cell (state_after ev False 1) 0 = (0, False)"
    by (simp add: cell_state_after n)
      (simp add: ev_def closure_def decay_rate_def noise_at_def start_cell_def next_cell_def)
  have c1: "cell (state_after ev False 1) 1 = (100, True)"
    by (simp add: cell_state_after n)
      (simp add: ev_def closure_def decay_rate_def noise_at_def start_cell_def next_cell_def)
  have dead: "\<not> alive (state_after ev False 1) ! 0"
    using c0 by (simp add: alive_nth_cell)
  have "(0::nat) < scenarios ev" "(1::nat) \<le> 3"
    by (simp_all add: n)
  from death_is_absorbing [OF this dead] dead c1 show ?thesis
    by (simp add: alive_nth_cell flip: ev_def)
qed

subsection \<open>A concrete scenario\<close>

text \<open>
  C9 (amended). For \<open>initial_energy = 100\<close>, \<open>cost_frac = 0.2\<close>, \<open>benefit_frac = 0.5\<close>,
  \<open>risk_frac = 0\<close>, \<open>horizon = 10\<close>, \<open>scenarios = 1\<close> the engine returns both survival
  rates equal to 1, the NO-run terminal energy \<open>100 * 0.95 ^ 10\<close>, which is 59.87 to two
  decimals, and the YES-run terminal energy \<open>80 * 0.975 ^ 10\<close> (the cost leaves 80, the
  decay rate is 0.025), which is 62.11 to two decimals; the decision rule reaches its
  tiebreak branch and answers YES, since \<open>avg_yes \<ge> avg_no\<close>.
\<close>

theorem concrete_scenario:
  "(\<exists>g'. simulate_decision lib g 100 (1 / 5) (1 / 2) 0 10 1 =
      Inr ((1, 1, 80 * (975 / 1000) ^ 10, 100 * (95 / 100) ^ 10), g')) \<and>
   start (closure 100 (1 / 5) (1 / 2) 0 10 1 rm) True = \<lparr>E = [80], alive = [True]\<rparr> \<and>
   decay_rate (closure 100 (1 / 5) (1 / 2) 0 10 1 rm) True = 25 / 1000 \<and>
   decay_rate (closure 100 (1 / 5) (1 / 2) 0 10 1 rm) False = 5 / 100 \<and>
   \<bar>100 * (95 / 100) ^ 10 - 5987 / 100\<bar> \<le> (5 / 1000 :: real) \<and>
   \<bar>80 * (975 / 1000) ^ 10 - 6211 / 100\<bar> \<le> (5 / 1000 :: real) \<and>
   \<not> (1 - 1 > (1 / 100 :: real)) \<and>
   (80 * (975 / 1000) ^ 10 :: real) \<ge> 100 * (95 / 100) ^ 10 \<and>
   decision 1 1 (80 * (975 / 1000) ^ 10) (100 * (95 / 100) ^ 10) = ''YES''"
proof -
  have p1: "\<exists>g'. simulate_decision lib g 100 (1 / 5) (1 / 2) 0 10 1 =
      Inr ((1, 1, 80 * (975 / 1000) ^ 10, 100 * (95 / 100) ^ 10), g')"
    using concrete_result [of lib g] by blast
  have p2: "start (closure 100 (1 / 5) (1 / 2) 0 10 1 rm) True = \<lparr>E = [80], alive = [True]\<rparr>"
    by (simp add: start_uniform [of _ True] start_cell_closure)
  have p3: "decay_rate (closure 100 (1 / 5) (1 / 2) 0 10 1 rm) True = 25 / 1000"
    "decay_rate (closure 100 (1 / 5) (1 / 2) 0 10 1 rm) False = 5 / 100"
    by (simp_all add: decay_rate_closure)
  have p4: "\<bar>100 * (95 / 100) ^ 10 - 5987 / 100\<bar> \<le> (5 / 1000 :: real)"
    "\<bar>80 * (975 / 1000) ^ 10 - 6211 / 100\<bar> \<le> (5 / 1000 :: real)"
    by (simp_all add: power_divide)
  have p5: "(80 * (975 / 1000) ^ 10 :: real) \<ge> 100 * (95 / 100) ^ 10"
    using yes_power(1) no_power(2) by linarith
  then have p6: "decision 1 1 (80 * (975 / 1000) ^ 10) (100 * (95 / 100) ^ 10) = ''YES''"
    unfolding decision_def by simp
  from p1 p2 p3 p4 p5 p6 show ?thesis
    by simp
qed

theorem concrete_scenario_not_62_19:
  "\<not> (\<exists>surv_yes surv_no avg_yes avg_no g'.
      simulate_decision (stream_library (\<lambda>key. 7) (\<lambda>seed n. if even n then - 12 else 3))
          0 100 (1 / 5) (1 / 2) 0 10 1 =
        Inr ((surv_yes, surv_no, avg_yes, avg_no), g') \<and>
      \<bar>avg_yes - 6219 / 100\<bar> \<le> 5 / 1000)"
proof -
  have "\<not> \<bar>80 * (975 / 1000) ^ 10 - 6219 / 100\<bar> \<le> (5 / 1000 :: real)"
    using yes_power(2) by linarith
  then show ?thesis
    unfolding concrete_result by simp
qed

subsection \<open>Output ranges\<close>

text \<open>
  C10. For every valid input (\<open>initial_energy > 0\<close>, \<open>horizon \<ge> 0\<close>, \<open>scenarios \<ge> 1\<close>,
  \<open>risk_frac \<ge> 0\<close>) the engine returns a quadruple; both survival rates lie in
  \<open>[0, 1]\<close>, both averages are at least 0, and in each run the survival rate is 0 exactly
  when the average final energy is 0. Whatever the noise array, after any number of loop
  steps every scenario of either run has energy at least 0, and is alive exactly when
  its energy is above 0 (so a dead one has energy exactly 0).
\<close>

theorem output_ranges:
  assumes "0 < init_energy" "0 \<le> hor" "1 \<le> scen" "0 \<le> risk_frac"
  shows "\<exists>surv_yes surv_no avg_yes avg_no g'.
     simulate_decision lib g init_energy cost_frac benefit_frac risk_frac hor scen =
       Inr ((surv_yes, surv_no, avg_yes, avg_no), g') \<and>
     0 \<le> surv_yes \<and> surv_yes \<le> 1 \<and> 0 \<le> surv_no \<and> surv_no \<le> 1 \<and>
     0 \<le> avg_yes \<and> 0 \<le> avg_no \<and>
     (surv_yes = 0 \<longleftrightarrow> avg_yes = 0) \<and> (surv_no = 0 \<longleftrightarrow> avg_no = 0) \<and>
     (\<forall>rm dec k i. i < nat scen \<longrightarrow>
        0 \<le> E (state_after (closure init_energy cost_frac benefit_frac risk_frac hor scen rm) dec k) ! i \<and>
        (alive (state_after (closure init_energy cost_frac benefit_frac risk_frac hor scen rm) dec k) ! i
           \<longleftrightarrow>
         0 < E (state_after (closure init_energy cost_frac benefit_frac risk_frac hor scen rm) dec k) ! i))"
proof -
  define ev where "ev = closure init_energy cost_frac benefit_frac risk_frac hor scen"
  have std: "0 \<le> 1 / 10 * init_energy * risk_frac"
    using assms(1,4) by simp
  have pos: "0 < scenarios (ev rm)" "dec \<or> 0 < initial_energy (ev rm)" for rm dec
    using assms(1,3) by (simp_all add: ev_def)
  have inv: "0 \<le> E (state_after (ev rm) dec k) ! i \<and>
      (alive (state_after (ev rm) dec k) ! i \<longleftrightarrow> 0 < E (state_after (ev rm) dec k) ! i)"
    if "i < nat scen" for rm dec k i
  proof -
    have "i < scenarios (ev rm)"
      using that by (simp add: ev_def)
    from state_after_sound [OF this pos(2), of dec k] show ?thesis
      by (simp add: sound_def cell_def)
  qed
  show ?thesis
    unfolding simulate_decision_Inr [OF std assms(2,3)] outcome_def ev_def [symmetric]
    using inv run_ranges [OF pos] survival_of_bounds
    by (simp add: ev_def)
qed

theorem output_ranges_witness:
  "\<exists>surv_yes surv_no avg_yes avg_no g'.
     simulate_decision (stream_library (\<lambda>key. 7) (\<lambda>seed n. if even n then - 12 else 3))
         0 100 (1 / 5) (1 / 2) 1 3 2 =
       Inr ((surv_yes, surv_no, avg_yes, avg_no), g') \<and>
     0 \<le> surv_yes \<and> surv_yes \<le> 1 \<and> 0 \<le> surv_no \<and> surv_no \<le> 1 \<and>
     0 \<le> avg_yes \<and> 0 \<le> avg_no \<and>
     (surv_yes = 0 \<longleftrightarrow> avg_yes = 0) \<and> (surv_no = 0 \<longleftrightarrow> avg_no = 0)"
proof -
  have h: "(0::real) < 100" "(0::int) \<le> 3" "(1::int) \<le> 2" "(0::real) \<le> 1"
    by simp_all
  from output_ranges [OF h, of "stream_library (\<lambda>key. 7) (\<lambda>seed n. if even n then - 12 else 3)" 0 "1 / 5" "1 / 2"]
  show ?thesis
    by blast
qed

end
